theory Spec2Isabelle
  imports Main "HOL-Library.Multiset" "HOL-Library.AList"
begin

section \<open>Python values used by the program\<close>

text \<open>
  Strings are \<^typ>\<open>string\<close>; Python integers are \<^typ>\<open>int\<close>. An attribute read with
  \<^verbatim>\<open>getattr(obj, name, None)\<close> is an \<^typ>\<open>'a option\<close>, and Python's truth test of
  such a value (\<^verbatim>\<open>if x:\<close>) is written out: \<^verbatim>\<open>None\<close>, \<^verbatim>\<open>0\<close>, the empty string and the
  empty list are false, everything else is true.
\<close>

definition dquote :: char where
  "dquote = CHR 0x22"

definition squote :: char where
  "squote = CHR 0x27"

definition backslash :: char where
  "backslash = CHR 0x5C"

fun digits :: "nat \<Rightarrow> string" where
  "digits n =
     (if n < 10 then [''0123456789'' ! n]
      else digits (n div 10) @ [''0123456789'' ! (n mod 10)])"

declare digits.simps [simp del]

definition str_int :: "int \<Rightarrow> string" where
  \<comment> \<open>\<^verbatim>\<open>str(i)\<close>, as an f-string formats an integer\<close>
  "str_int i = (if i < 0 then CHR ''-'' # digits (nat (- i)) else digits (nat i))"

fun join :: "string \<Rightarrow> string list \<Rightarrow> string" where
  \<comment> \<open>\<^verbatim>\<open>sep.join(xs)\<close>\<close>
  "join sep [] = []"
| "join sep [x] = x"
| "join sep (x # y # ys) = x @ sep @ join sep (y # ys)"

definition truthy_int :: "int option \<Rightarrow> bool" where
  "truthy_int x = (case x of None \<Rightarrow> False | Some n \<Rightarrow> n \<noteq> 0)"

definition truthy_str :: "string option \<Rightarrow> bool" where
  "truthy_str x = (case x of None \<Rightarrow> False | Some s \<Rightarrow> s \<noteq> [])"

definition truthy_list :: "'a list option \<Rightarrow> bool" where
  "truthy_list x = (case x of None \<Rightarrow> False | Some xs \<Rightarrow> xs \<noteq> [])"

definition sorted_reverse :: "('a \<Rightarrow> int) \<Rightarrow> 'a list \<Rightarrow> 'a list" where
  \<comment> \<open>\<^verbatim>\<open>sorted(xs, key=key, reverse=True)\<close>: descending by key, and stable (elements with
      equal keys keep their order, also with \<^verbatim>\<open>reverse=True\<close>)\<close>
  "sorted_reverse key xs = sort_key (\<lambda>x. - key x) xs"


section \<open>The variant model (objects of the streamlink library, as the code reads them)\<close>

text \<open>
  A playlist of the multivariant playlist has a \<^verbatim>\<open>uri\<close> and a \<^verbatim>\<open>stream_info\<close>, which may be
  \<^verbatim>\<open>None\<close>. Of a stream info the code reads \<^verbatim>\<open>program_id\<close> (a string), \<^verbatim>\<open>bandwidth\<close> (an
  integer), \<^verbatim>\<open>codecs\<close> (a list of strings), \<^verbatim>\<open>resolution\<close> (an object with the integers
  \<^verbatim>\<open>width\<close> and \<^verbatim>\<open>height\<close>; as an object it is true whatever they are) and \<^verbatim>\<open>video\<close> (a
  string); each of them may be \<^verbatim>\<open>None\<close>.
\<close>

record resolution =
  width :: int
  height :: int

record stream_info =
  program_id :: "string option"
  bandwidth :: "int option"
  codecs :: "string list option"
  resolution :: "resolution option"
  video :: "string option"

record playlist =
  stream_info :: "stream_info option"
  uri :: string

record multivariant =
  playlists :: "playlist list"
  version :: "int option"

record stream =
  multivariant :: "multivariant option"

text \<open>The dictionary \<^verbatim>\<open>streams\<close>: stream name to stream object; \<^verbatim>\<open>streams.get(k)\<close> is
  \<^term>\<open>map_of streams k\<close>, and the dictionary is false exactly when it is empty.\<close>

type_synonym streams = "(string \<times> stream) list"


section \<open>generate.py: rendering and the single-pass synthesis\<close>

definition info_to_text :: "stream_info \<Rightarrow> string \<Rightarrow> string" where
  "info_to_text si u =
     (let text = ''#EXT-X-STREAM-INF:'';
          text = (if truthy_str (program_id si)
                  then text @ ''PROGRAM-ID='' @ the (program_id si) @ '','' else text);
          text = (if truthy_int (bandwidth si)
                  then text @ ''BANDWIDTH='' @ str_int (the (bandwidth si)) @ '','' else text);
          text = (if truthy_list (codecs si)
                  then text @ ''CODECS='' @ [dquote] @ join '','' (the (codecs si)) @ [dquote] @ '',''
                  else text);
          text = (case resolution si of
                    None \<Rightarrow> text
                  | Some res \<Rightarrow>
                      if width res \<noteq> 0
                      then text @ ''RESOLUTION='' @ str_int (width res) @ ''x'' @ str_int (height res)
                      else text)
      in text @ ''\<newline>'' @ u @ ''\<newline>'')"

text \<open>The loop of \<^verbatim>\<open>build_playlists\<close>: its state is
  \<^verbatim>\<open>(previous_res_height, master_text, best_text)\<close>.\<close>

fun build_playlists_loop ::
    "playlist list \<Rightarrow> int \<times> string \<times> string \<Rightarrow> int \<times> string \<times> string" where
  "build_playlists_loop [] st = st"
| "build_playlists_loop (pl # rest) (previous_res_height, master_text, best_text) =
     (case stream_info pl of
        None \<Rightarrow> build_playlists_loop rest (previous_res_height, master_text, best_text)
      | Some info \<Rightarrow>
          if video info = Some ''audio_only''
          then build_playlists_loop rest (previous_res_height, master_text, best_text)
          else
            let sub_text = info_to_text info (uri pl);
                h = (case resolution info of None \<Rightarrow> 0 | Some res \<Rightarrow> height res)
            in if h > previous_res_height
               then build_playlists_loop rest (h, sub_text @ master_text, sub_text)
               else build_playlists_loop rest (h, master_text @ sub_text, best_text))"

definition add_headers :: "multivariant \<Rightarrow> string \<Rightarrow> string" where
  \<comment> \<open>the last lines of both builders: the optional version line, then \<^verbatim>\<open>#EXTM3U\<close> in front\<close>
  "add_headers mv text =
     ''#EXTM3U\<newline>'' @
     (if truthy_int (version mv)
      then ''#EXT-X-VERSION:'' @ str_int (the (version mv)) @ ''\<newline>'' @ text
      else text)"

definition build_playlists :: "streams \<Rightarrow> string option \<times> string option" where
  "build_playlists streams =
     (case map_of streams ''best'' of
        None \<Rightarrow> (None, None)
      | Some best_stream \<Rightarrow>
          (case multivariant best_stream of
             None \<Rightarrow> (None, None)
           | Some mv \<Rightarrow>
               if playlists mv = [] then (None, None)
               else
                 (case build_playlists_loop (playlists mv) (0, [], []) of
                    (previous_res_height, master_text, best_text) \<Rightarrow>
                      if master_text = [] then (None, None)
                      else (Some (add_headers mv master_text), Some (add_headers mv best_text)))))"


section \<open>utils.py: rendering and the synthesis with an explicit sort\<close>

definition stream_info_to_extinf :: "stream_info \<Rightarrow> string \<Rightarrow> string" where
  "stream_info_to_extinf si u =
     (let text = ''#EXT-X-STREAM-INF:'';
          text = (if truthy_str (program_id si)
                  then text @ ''PROGRAM-ID='' @ the (program_id si) @ '','' else text);
          text = (if truthy_int (bandwidth si)
                  then text @ ''BANDWIDTH='' @ str_int (the (bandwidth si)) @ '','' else text);
          text = (if truthy_list (codecs si)
                  then text @ ''CODECS='' @ [dquote] @ join '','' (the (codecs si)) @ [dquote] @ '',''
                  else text);
          text = (case resolution si of
                    None \<Rightarrow> text
                  | Some res \<Rightarrow>
                      if width res \<noteq> 0 \<and> height res \<noteq> 0
                      then text @ ''RESOLUTION='' @ str_int (width res) @ ''x'' @ str_int (height res)
                      else text)
      in text @ ''\<newline>'' @ u @ ''\<newline>'')"

definition height_of :: "playlist \<Rightarrow> int" where
  "height_of pl =
     (case stream_info pl of
        None \<Rightarrow> 0
      | Some info \<Rightarrow> (case resolution info of None \<Rightarrow> 0 | Some res \<Rightarrow> height res))"

text \<open>The loop of \<^verbatim>\<open>build_master_and_best\<close> over \<^verbatim>\<open>enumerate(playlists)\<close>: its state is
  \<^verbatim>\<open>(master_text, best_text)\<close>.\<close>

fun build_master_and_best_loop ::
    "(nat \<times> playlist) list \<Rightarrow> string \<times> string \<Rightarrow> string \<times> string" where
  "build_master_and_best_loop [] st = st"
| "build_master_and_best_loop ((i, pl) # rest) (master_text, best_text) =
     (case stream_info pl of
        None \<Rightarrow> build_master_and_best_loop rest (master_text, best_text)
      | Some info \<Rightarrow>
          if video info = Some ''audio_only''
          then build_master_and_best_loop rest (master_text, best_text)
          else
            let sub = stream_info_to_extinf info (uri pl)
            in build_master_and_best_loop rest
                 (master_text @ sub, if i = 0 then sub else best_text))"

definition build_master_and_best :: "streams \<Rightarrow> string option \<times> string option" where
  "build_master_and_best streams =
     (case map_of streams ''best'' of
        None \<Rightarrow> (None, None)
      | Some best_stream \<Rightarrow>
          (case multivariant best_stream of
             None \<Rightarrow> (None, None)
           | Some mv \<Rightarrow>
               if playlists mv = [] then (None, None)
               else
                 (case build_master_and_best_loop
                         (enumerate 0 (sorted_reverse height_of (playlists mv))) ([], []) of
                    (master_text, best_text) \<Rightarrow>
                      if master_text = [] \<or> best_text = [] then (None, None)
                      else (Some (add_headers mv master_text), Some (add_headers mv best_text)))))"


section \<open>Python regular expressions, as far as the plugin uses them\<close>

text \<open>
  The patterns of the plugin use literals, character classes, sequence, alternation, the
  greedy repetitions \<^verbatim>\<open>*\<close>, \<^verbatim>\<open>+\<close>, \<^verbatim>\<open>?\<close> and named groups, all under \<^verbatim>\<open>re.IGNORECASE\<close>.
  \<^verbatim>\<open>re\<close> is a backtracking matcher: at one start offset it tries the alternatives of
  \<^verbatim>\<open>r|s\<close> from left to right and the repetitions of \<^verbatim>\<open>r*\<close> longest first, and
  \<^verbatim>\<open>search\<close> tries the start offsets from left to right and returns the first match found.
  \<^term>\<open>matches r (s, g)\<close> lists, in that order of preference, every way \<^term>\<open>r\<close> matches a
  prefix of \<^term>\<open>s\<close>: the rest of the text and the groups captured (\<^term>\<open>g\<close> and the new ones).
  A character is a code point below 256.
\<close>

datatype regex =
    Sym "char \<Rightarrow> bool"
  | Eps
  | Seq regex regex
  | Alt regex regex
  | Star regex
  | Group string regex

type_synonym mstate = "string \<times> (string \<times> string) list"

fun star :: "nat \<Rightarrow> (mstate \<Rightarrow> mstate list) \<Rightarrow> mstate \<Rightarrow> mstate list" where
  \<comment> \<open>greedy repetition of a step that consumes text; the first argument bounds the number of
      repetitions and is the length of the text, which no repetition can exceed\<close>
  "star 0 f st = [st]"
| "star (Suc n) f st =
     concat (map (star n f) (filter (\<lambda>st'. length (fst st') < length (fst st)) (f st))) @ [st]"

primrec matches :: "regex \<Rightarrow> mstate \<Rightarrow> mstate list" where
  "matches (Sym p) st =
     (case fst st of [] \<Rightarrow> [] | c # cs \<Rightarrow> if p c then [(cs, snd st)] else [])"
| "matches Eps st = [st]"
| "matches (Seq r1 r2) st = concat (map (matches r2) (matches r1 st))"
| "matches (Alt r1 r2) st = matches r1 st @ matches r2 st"
| "matches (Star r) st = star (length (fst st)) (matches r) st"
| "matches (Group name r) st =
     map (\<lambda>st'. (fst st', (name, take (length (fst st) - length (fst st')) (fst st)) # snd st'))
       (matches r st)"

fun search :: "regex \<Rightarrow> string \<Rightarrow> mstate option" where
  \<comment> \<open>\<^verbatim>\<open>pattern.search(text)\<close>: \<^verbatim>\<open>None\<close>, or the match object\<close>
  "search r [] = (case matches r ([], []) of [] \<Rightarrow> None | m # ms \<Rightarrow> Some m)"
| "search r (c # cs) = (case matches r (c # cs, []) of [] \<Rightarrow> search r cs | m # ms \<Rightarrow> Some m)"

definition match_group :: "mstate \<Rightarrow> string \<Rightarrow> string option" where
  \<comment> \<open>\<^verbatim>\<open>m.group(name)\<close>: \<^verbatim>\<open>None\<close> when the group took no part in the match\<close>
  "match_group m name = map_of (snd m) name"

definition lower :: "char \<Rightarrow> char" where
  "lower c =
     (case map_of (zip ''ABCDEFGHIJKLMNOPQRSTUVWXYZ'' ''abcdefghijklmnopqrstuvwxyz'') c of
        None \<Rightarrow> c
      | Some l \<Rightarrow> l)"

definition ichr :: "char \<Rightarrow> regex" where
  \<comment> \<open>a literal character, under \<^verbatim>\<open>re.IGNORECASE\<close>\<close>
  "ichr c = Sym (\<lambda>x. lower x = lower c)"

definition seq :: "regex list \<Rightarrow> regex" where
  "seq rs = foldr Seq rs Eps"

definition istr :: "string \<Rightarrow> regex" where
  \<comment> \<open>a literal string, under \<^verbatim>\<open>re.IGNORECASE\<close>\<close>
  "istr s = seq (map ichr s)"

definition one_or_more :: "regex \<Rightarrow> regex" where
  \<comment> \<open>\<^verbatim>\<open>r+\<close>\<close>
  "one_or_more r = Seq r (Star r)"

definition optional :: "regex \<Rightarrow> regex" where
  \<comment> \<open>\<^verbatim>\<open>r?\<close>\<close>
  "optional r = Alt r Eps"

definition is_space :: "char \<Rightarrow> bool" where
  \<comment> \<open>\<^verbatim>\<open>\s\<close> of a \<^verbatim>\<open>str\<close> pattern, on the code points below 256\<close>
  "is_space c =
     (c \<in> set [CHR 0x09, CHR 0x0A, CHR 0x0B, CHR 0x0C, CHR 0x0D, CHR 0x1C, CHR 0x1D, CHR 0x1E,
               CHR 0x1F, CHR 0x20, CHR 0x85, CHR 0xA0])"

definition spaces :: regex where
  \<comment> \<open>\<^verbatim>\<open>\s*\<close>\<close>
  "spaces = Star (Sym is_space)"

definition quote :: regex where
  \<comment> \<open>the class of the two quote characters\<close>
  "quote = Sym (\<lambda>c. c \<in> set [dquote, squote])"

definition not_quote :: regex where
  \<comment> \<open>the class of everything but the two quote characters\<close>
  "not_quote = Sym (\<lambda>c. c \<notin> set [dquote, squote])"

definition url_char :: regex where
  \<comment> \<open>the class of everything but quotes, backslash and white space\<close>
  "url_char = Sym (\<lambda>c. c \<notin> set [dquote, squote, backslash] \<and> \<not> is_space c)"


section \<open>eurostartv\_plugin.py: the manifest resolver\<close>

definition re_m3u8 :: regex where
  "re_m3u8 =
     Group ''url''
       (seq [istr ''http'', optional (ichr CHR ''s''), istr ''://'', one_or_more url_char,
             istr ''.m3u8'', Star url_char])"

definition re_iframe :: regex where
  "re_iframe =
     seq [istr ''<iframe'', one_or_more (Sym (\<lambda>c. c \<noteq> CHR ''>'')), istr ''src='', quote,
          Group ''src'' (one_or_more not_quote), quote]"

text \<open>The three alternatives of \<^verbatim>\<open>_re_source_url\<close> (written with \<^verbatim>\<open>re.VERBOSE\<close>, so the
  white space of the pattern itself means nothing).\<close>

definition http_url :: regex where
  \<comment> \<open>the body of each of the three groups\<close>
  "http_url = seq [istr ''http'', optional (ichr CHR ''s''), istr ''://'', one_or_more not_quote]"

definition source_form :: regex where
  "source_form =
     seq [istr ''source'', spaces, istr '':'', spaces, istr ''{'', spaces, istr ''src'', spaces,
          istr '':'', spaces, quote, Group ''src1'' http_url, quote]"

definition file_form :: regex where
  "file_form = seq [istr ''file'', spaces, istr '':'', spaces, quote, Group ''src2'' http_url, quote]"

definition hls_form :: regex where
  "hls_form = seq [istr ''hls'', spaces, istr '':'', spaces, quote, Group ''src3'' http_url, quote]"

definition re_source_url :: regex where
  "re_source_url = Alt source_form (Alt file_form hls_form)"

datatype exn = Exception string

text \<open>
  \<^verbatim>\<open>self.session.http.get(url)\<close> belongs to the HTTP client: it returns a response, whose
  \<^verbatim>\<open>text\<close> the plugin reads, or raises. It is a parameter of the model, of type
  \<^typ>\<open>string \<Rightarrow> exn + string\<close>. So is \<^verbatim>\<open>urllib.parse.urljoin\<close>.
\<close>

definition EurostarTV_fetch :: "(string \<Rightarrow> exn + string) \<Rightarrow> string \<Rightarrow> exn + string" where
  "EurostarTV_fetch http_get u = http_get u"

definition find_m3u8_in_text :: "string \<Rightarrow> string option" where
  "find_m3u8_in_text text =
     (case search re_m3u8 text of None \<Rightarrow> None | Some m \<Rightarrow> match_group m ''url'')"

definition find_iframe_url :: "(string \<Rightarrow> string \<Rightarrow> string) \<Rightarrow> string \<Rightarrow> string \<Rightarrow> string option" where
  "find_iframe_url urljoin html base_url =
     (case search re_iframe html of
        None \<Rightarrow> None
      | Some m \<Rightarrow> map_option (urljoin base_url) (match_group m ''src''))"

definition py_or :: "string option \<Rightarrow> string option \<Rightarrow> string option" where
  \<comment> \<open>\<^verbatim>\<open>a or b\<close>\<close>
  "py_or a b = (if truthy_str a then a else b)"

definition find_player_source_url :: "string \<Rightarrow> string option" where
  "find_player_source_url text =
     (case search re_source_url text of
        None \<Rightarrow> None
      | Some m \<Rightarrow> py_or (py_or (match_group m ''src1'') (match_group m ''src2'')) (match_group m ''src3''))"

fun contains :: "string \<Rightarrow> string \<Rightarrow> bool" where
  \<comment> \<open>\<^verbatim>\<open>sub in s\<close>\<close>
  "contains sub [] = (sub = [])"
| "contains sub (c # cs) = (take (length sub) (c # cs) = sub \<or> contains sub cs)"

text \<open>What \<^verbatim>\<open>_get_streams\<close> returns: \<^verbatim>\<open>None\<close>, or the result of
  \<^verbatim>\<open>HLSStream.parse_variant_playlist(self.session, url)\<close> for the manifest URL it located.\<close>

datatype resolved = NotFound | ParseVariantPlaylist string

definition EurostarTV_get_streams ::
    "(string \<Rightarrow> exn + string) \<Rightarrow> (string \<Rightarrow> string \<Rightarrow> string) \<Rightarrow> string \<Rightarrow> exn + resolved" where
  "EurostarTV_get_streams http_get urljoin page_url =
     (case EurostarTV_fetch http_get page_url of
        Inl e \<Rightarrow> Inl e
      | Inr html \<Rightarrow>
          let m3u8 = find_m3u8_in_text html in
          if truthy_str m3u8 then Inr (ParseVariantPlaylist (the m3u8))
          else
            let src = find_player_source_url html in
            if truthy_str src \<and> contains ''.m3u8'' (the src) then Inr (ParseVariantPlaylist (the src))
            else
              let iframe_url = find_iframe_url urljoin html page_url in
              if truthy_str iframe_url then
                (case EurostarTV_fetch http_get (the iframe_url) of
                   Inl e \<Rightarrow> Inl e
                 | Inr html2 \<Rightarrow>
                     let m3u8 = find_m3u8_in_text html2 in
                     if truthy_str m3u8 then Inr (ParseVariantPlaylist (the m3u8))
                     else
                       let src2 = find_player_source_url html2 in
                       if truthy_str src2 \<and> contains ''.m3u8'' (the src2)
                       then Inr (ParseVariantPlaylist (the src2))
                       else Inr NotFound)
              else Inr NotFound)"


section \<open>Sessions and their HTTP headers (generate.py and utils.py)\<close>

text \<open>
  A dictionary of headers keeps its insertion order; \<^verbatim>\<open>d.update(other)\<close> assigns the items of
  \<^verbatim>\<open>other\<close> one by one. A \<^verbatim>\<open>streamlink.Streamlink()\<close> object is modelled by the options set
  on it; \<^verbatim>\<open>session.streams(url)\<close> belongs to the library and is a parameter of the model. The
  requests handed to it are recorded in a log, which is threaded through the calls.
\<close>

type_synonym headers = "(string \<times> string) list"

definition dict_update :: "headers \<Rightarrow> headers \<Rightarrow> headers" where
  "dict_update d other = fold (\<lambda>kv acc. AList.update (fst kv) (snd kv) acc) other d"

record session =
  options :: "(string \<times> headers) list"

definition Streamlink :: session where
  "Streamlink = \<lparr>options = []\<rparr>"

definition set_option :: "session \<Rightarrow> string \<Rightarrow> headers \<Rightarrow> session" where
  "set_option s k v = s\<lparr>options := AList.update k v (options s)\<rparr>"

type_synonym request = "session \<times> string"

definition session_streams ::
    "(session \<Rightarrow> string \<Rightarrow> exn + streams) \<Rightarrow> session \<Rightarrow> string \<Rightarrow> request list
      \<Rightarrow> (exn + streams) \<times> request list" where
  \<comment> \<open>\<^verbatim>\<open>session.streams(url)\<close>\<close>
  "session_streams library s u log = (library s u, log @ [(s, u)])"

definition get_streams ::
    "(session \<Rightarrow> string \<Rightarrow> exn + streams) \<Rightarrow> string \<Rightarrow> headers option \<Rightarrow> request list
      \<Rightarrow> (exn + streams) \<times> request list" where
  "get_streams library u hdrs log =
     (let session = Streamlink;
          default_headers = [(''User-Agent'', ''Mozilla/5.0'')];
          default_headers = (if truthy_list hdrs then dict_update default_headers (the hdrs)
                             else default_headers);
          session = set_option session ''http-headers'' default_headers
      in session_streams library session u log)"

definition make_streamlink_session :: "headers option \<Rightarrow> session" where
  "make_streamlink_session hdrs =
     (let session = Streamlink;
          default_headers = [(''User-Agent'', ''Mozilla/5.0'')];
          default_headers = (if truthy_list hdrs then dict_update default_headers (the hdrs)
                             else default_headers)
      in set_option session ''http-headers'' default_headers)"

definition fetch_streams ::
    "(session \<Rightarrow> string \<Rightarrow> exn + streams) \<Rightarrow> string \<Rightarrow> headers option \<Rightarrow> request list
      \<Rightarrow> (exn + streams) \<times> request list" where
  "fetch_streams library u hdrs log =
     (let session = make_streamlink_session hdrs in session_streams library session u log)"


section \<open>generate.py: the batch run\<close>

record output_config =
  folder :: string
  bestFolder :: string
  masterFolder :: string

record channel =
  slug :: string
  url :: string
  headers :: "headers option"

record config =
  output_cfg :: output_config
  channels :: "channel list"

text \<open>
  The world around \<^verbatim>\<open>main\<close>: what loading the configuration file gives, which exception
  \<^verbatim>\<open>os.makedirs\<close> and \<^verbatim>\<open>open(path, "w")\<close> raise for a path (if any), and the streamlink
  library.
\<close>

record env =
  load_config :: "exn + config"
  makedirs :: "string \<Rightarrow> exn option"
  open_w :: "string \<Rightarrow> exn option"
  library :: "session \<Rightarrow> string \<Rightarrow> exn + streams"

text \<open>The lines \<^verbatim>\<open>main\<close> prints; \<^verbatim>\<open>Summary s f t\<close> stands for the summary block with its
  three counts, \<^verbatim>\<open>Traceback e\<close> for the report of an exception nobody caught.\<close>

datatype message =
    Starting
  | FailedLoadingConfig exn
  | Processing string
  | URL string
  | NoStreamsFound
  | NoMultivariantPlaylist
  | Success
  | Error exn
  | Summary nat nat nat
  | Traceback exn

record run_state =
  success :: nat
  fail :: nat
  out :: "message list"
  files :: "(string \<times> string) list"
  requests :: "request list"

definition path_join :: "string \<Rightarrow> string \<Rightarrow> string" where
  \<comment> \<open>\<^verbatim>\<open>os.path.join(a, b)\<close> on a POSIX system\<close>
  "path_join a b =
     (if take 1 b = ''/'' then b
      else if a = [] \<or> last a = CHR ''/'' then a @ b
      else a @ ''/'' @ b)"

definition print :: "message \<Rightarrow> run_state \<Rightarrow> run_state" where
  "print m st = st\<lparr>out := out st @ [m]\<rparr>"

definition failed :: "message \<Rightarrow> run_state \<Rightarrow> run_state" where
  \<comment> \<open>a message, then \<^verbatim>\<open>fail += 1\<close>\<close>
  "failed m st = (print m st)\<lparr>fail := fail st + 1\<rparr>"

definition process_channel :: "env \<Rightarrow> string \<Rightarrow> string \<Rightarrow> channel \<Rightarrow> run_state \<Rightarrow> run_state" where
  \<comment> \<open>the body of the loop over the channels\<close>
  "process_channel w master_folder best_folder ch st0 =
     (let st = print (URL (url ch)) (print (Processing (slug ch)) st0)
      in case get_streams (library w) (url ch) (headers ch) (requests st) of
           (r, log) \<Rightarrow>
             let st = st\<lparr>requests := log\<rparr>
             in case r of
                  Inl e \<Rightarrow> failed (Error e) st
                | Inr streams \<Rightarrow>
                    if streams = [] then failed NoStreamsFound st
                    else
                      (case build_playlists streams of
                         (master_text, best_text) \<Rightarrow>
                           if \<not> truthy_str master_text then failed NoMultivariantPlaylist st
                           else
                             let master_path = path_join master_folder (slug ch @ ''.m3u8'');
                                 best_path = path_join best_folder (slug ch @ ''.m3u8'')
                             in case open_w w master_path of
                                  Some e \<Rightarrow> failed (Error e) st
                                | None \<Rightarrow>
                                    let st = st\<lparr>files :=
                                               AList.update master_path (the master_text) (files st)\<rparr>
                                    in case open_w w best_path of
                                         Some e \<Rightarrow> failed (Error e) st
                                       | None \<Rightarrow>
                                           let st = st\<lparr>files :=
                                                 AList.update best_path (the best_text) (files st)\<rparr>
                                           in (print Success st)\<lparr>success := success st + 1\<rparr>))"

definition main :: "env \<Rightarrow> (string \<times> string) list \<Rightarrow> int \<times> run_state" where
  \<comment> \<open>the exit status of the process and the final state; the second argument is the content
      of the file system at the start\<close>
  "main w fs =
     (let st = print Starting \<lparr>success = 0, fail = 0, out = [], files = fs, requests = []\<rparr>
      in case load_config w of
           Inl e \<Rightarrow> (1, print (FailedLoadingConfig e) st)
         | Inr config \<Rightarrow>
             let root_folder = folder (output_cfg config);
                 best_folder = path_join root_folder (bestFolder (output_cfg config));
                 master_folder = path_join root_folder (masterFolder (output_cfg config))
             in case makedirs w best_folder of
                  Some e \<Rightarrow> (1, print (Traceback e) st)
                | None \<Rightarrow>
                    (case makedirs w master_folder of
                       Some e \<Rightarrow> (1, print (Traceback e) st)
                     | None \<Rightarrow>
                         let st = fold (process_channel w master_folder best_folder) (channels config) st;
                             st = print (Summary (success st) (fail st) (length (channels config))) st
                         in (if success st = 0 then 1 else 0, st)))"


section \<open>Vocabulary of the statements\<close>

definition audio_only :: "playlist \<Rightarrow> bool" where
  "audio_only pl = (case stream_info pl of None \<Rightarrow> False | Some info \<Rightarrow> video info = Some ''audio_only'')"

definition rendered :: "playlist \<Rightarrow> bool" where
  \<comment> \<open>the variants both loops keep: a stream info is there and it is not audio only\<close>
  "rendered pl = (case stream_info pl of None \<Rightarrow> False | Some info \<Rightarrow> video info \<noteq> Some ''audio_only'')"

definition block_g :: "playlist \<Rightarrow> string" where
  \<comment> \<open>the two lines generate.py renders for a kept variant\<close>
  "block_g pl = info_to_text (the (stream_info pl)) (uri pl)"

definition block_u :: "playlist \<Rightarrow> string" where
  \<comment> \<open>the two lines utils.py renders for a kept variant\<close>
  "block_u pl = stream_info_to_extinf (the (stream_info pl)) (uri pl)"

definition best_of :: "multivariant \<Rightarrow> streams" where
  \<comment> \<open>a streams dictionary whose \<^verbatim>\<open>best\<close> stream carries the multivariant playlist\<close>
  "best_of mv = [(''best'', \<lparr>multivariant = Some mv\<rparr>)]"

definition direct_or_player :: "string \<Rightarrow> string option" where
  \<comment> \<open>steps 2 and 3 of the resolver on one text: the direct manifest URL, else the player
      source if it contains \<^verbatim>\<open>.m3u8\<close>\<close>
  "direct_or_player text =
     (if truthy_str (find_m3u8_in_text text) then find_m3u8_in_text text
      else if truthy_str (find_player_source_url text)
              \<and> contains ''.m3u8'' (the (find_player_source_url text))
           then find_player_source_url text
           else None)"

text \<open>The two output folders as \<^verbatim>\<open>main\<close> computes them, the last line \<^verbatim>\<open>main\<close> prints for
  a channel, the three lines it prints for it, and the request it hands to the library.\<close>

definition best_folder_of :: "config \<Rightarrow> string" where
  "best_folder_of cfg = path_join (folder (output_cfg cfg)) (bestFolder (output_cfg cfg))"

definition master_folder_of :: "config \<Rightarrow> string" where
  "master_folder_of cfg = path_join (folder (output_cfg cfg)) (masterFolder (output_cfg cfg))"

definition outcome :: "env \<Rightarrow> string \<Rightarrow> string \<Rightarrow> channel \<Rightarrow> message" where
  \<comment> \<open>the last line printed for a channel\<close>
  "outcome w master_folder best_folder ch =
     (case library w (make_streamlink_session (headers ch)) (url ch) of
        Inl e \<Rightarrow> Error e
      | Inr streams \<Rightarrow>
          if streams = [] then NoStreamsFound
          else if \<not> truthy_str (fst (build_playlists streams)) then NoMultivariantPlaylist
          else
            (case open_w w (path_join master_folder (slug ch @ ''.m3u8'')) of
               Some e \<Rightarrow> Error e
             | None \<Rightarrow>
                 (case open_w w (path_join best_folder (slug ch @ ''.m3u8'')) of
                    Some e \<Rightarrow> Error e
                  | None \<Rightarrow> Success)))"

definition channel_succeeds :: "env \<Rightarrow> string \<Rightarrow> string \<Rightarrow> channel \<Rightarrow> bool" where
  "channel_succeeds w master_folder best_folder ch = (outcome w master_folder best_folder ch = Success)"

definition lines_of :: "env \<Rightarrow> string \<Rightarrow> string \<Rightarrow> channel \<Rightarrow> message list" where
  "lines_of w master_folder best_folder ch =
     [Processing (slug ch), URL (url ch), outcome w master_folder best_folder ch]"

definition request_of :: "channel \<Rightarrow> request" where
  "request_of ch = (make_streamlink_session (headers ch), url ch)"


section \<open>Example variants\<close>

text \<open>The variants of the specification's example (heights 1080, 720 and 480, the last one
  audio only), a variant set whose heights go down and up again, and two variants without a
  resolution.\<close>

definition v1080 :: playlist where
  "v1080 = \<lparr>stream_info = Some \<lparr>program_id = Some ''1'', bandwidth = Some 5000000,
              codecs = Some [''avc1.640028'', ''mp4a.40.2''],
              resolution = Some \<lparr>width = 1920, height = 1080\<rparr>, video = None\<rparr>,
            uri = ''https://cdn.example/1080.m3u8''\<rparr>"

definition v720 :: playlist where
  "v720 = \<lparr>stream_info = Some \<lparr>program_id = Some ''1'', bandwidth = Some 2800000,
             codecs = Some [''avc1.64001f'', ''mp4a.40.2''],
             resolution = Some \<lparr>width = 1280, height = 720\<rparr>, video = None\<rparr>,
           uri = ''https://cdn.example/720.m3u8''\<rparr>"

definition v480 :: playlist where
  "v480 = \<lparr>stream_info = Some \<lparr>program_id = None, bandwidth = Some 1400000,
             codecs = None,
             resolution = Some \<lparr>width = 854, height = 480\<rparr>, video = None\<rparr>,
           uri = ''https://cdn.example/480.m3u8''\<rparr>"

definition a480 :: playlist where
  "a480 = \<lparr>stream_info = Some \<lparr>program_id = None, bandwidth = Some 1400000,
             codecs = None,
             resolution = Some \<lparr>width = 854, height = 480\<rparr>, video = Some ''audio_only''\<rparr>,
           uri = ''https://cdn.example/480.m3u8''\<rparr>"

definition audio0 :: playlist where
  "audio0 = \<lparr>stream_info = Some \<lparr>program_id = None, bandwidth = Some 128000,
               codecs = Some [''mp4a.40.2''], resolution = None, video = Some ''audio_only''\<rparr>,
             uri = ''https://cdn.example/audio.m3u8''\<rparr>"

definition video0 :: playlist where
  "video0 = \<lparr>stream_info = Some \<lparr>program_id = None, bandwidth = Some 900000,
               codecs = None, resolution = None, video = None\<rparr>,
             uri = ''https://cdn.example/video.m3u8''\<rparr>"


section \<open>Example pages\<close>

text \<open>A page with a \<^verbatim>\<open>file\<close> field before a \<^verbatim>\<open>source\<close> object (their URLs hold a space, so
  the direct pattern does not match them); a page with a relative iframe and the text behind
  it; two stand-ins for the HTTP client, one of which fails on the iframe; and what
  \<^verbatim>\<open>urljoin\<close> gives on the base \<^verbatim>\<open>https://example.com/watch\<close> for a reference that starts
  with a slash.\<close>

definition quoted :: "string \<Rightarrow> string" where
  "quoted s = [dquote] @ s @ [dquote]"

definition page_two_forms :: string where
  "page_two_forms =
     ''file:'' @ quoted ''http://a/f 1.m3u8'' @ '',source:{src:'' @ quoted ''http://b/s 1.m3u8'' @ ''}''"

definition page_iframe :: string where
  "page_iframe = ''<p><iframe src='' @ quoted ''/embed/live'' @ ''></iframe>''"

definition page_iframe_two_src :: string where
  "page_iframe_two_src =
     ''<iframe src='' @ quoted ''/embed/live'' @ '' data-src='' @ quoted ''/lazy'' @ ''></iframe>''"

definition page_inner :: string where
  "page_inner = ''hls: '' @ quoted ''https://cdn.example.com/live.m3u8''"

definition web :: "string \<Rightarrow> exn + string" where
  "web u =
     (if u = ''https://example.com/watch'' then Inr page_iframe
      else if u = ''https://example.com/embed/live'' then Inr page_inner
      else Inl (Exception ''404''))"

definition web_two_src :: "string \<Rightarrow> exn + string" where
  "web_two_src u =
     (if u = ''https://example.com/watch'' then Inr page_iframe_two_src
      else if u = ''https://example.com/embed/live'' then Inr page_inner
      else Inl (Exception ''404''))"

definition web_without_embed :: "string \<Rightarrow> exn + string" where
  "web_without_embed u =
     (if u = ''https://example.com/watch'' then Inr page_iframe else Inl (Exception ''404''))"

definition join_example :: "string \<Rightarrow> string \<Rightarrow> string" where
  "join_example base ref = ''https://example.com'' @ ref"


section \<open>Example run\<close>

text \<open>Three channels: the library finds a multivariant playlist for the first, no stream for
  the second and raises for the third. A second configuration differs from the first in the
  headers of the first and the third channel only; a third world has no configuration
  file.\<close>

definition streams_ok :: streams where
  "streams_ok = best_of \<lparr>playlists = [v1080, v720, a480], version = Some 3\<rparr>"

definition channel_one :: channel where
  "channel_one = \<lparr>slug = ''one'', url = ''https://tv.example/one'',
                  headers = Some [(''Referer'', ''https://tv.example/'')]\<rparr>"

definition channel_two :: channel where
  "channel_two = \<lparr>slug = ''two'', url = ''https://tv.example/two'', headers = None\<rparr>"

definition channel_three :: channel where
  "channel_three = \<lparr>slug = ''three'', url = ''https://tv.example/three'',
                    headers = Some [(''User-Agent'', ''curl/8'')]\<rparr>"

definition library_example :: "session \<Rightarrow> string \<Rightarrow> exn + streams" where
  "library_example s u =
     (if u = ''https://tv.example/one'' then Inr streams_ok
      else if u = ''https://tv.example/two'' then Inr []
      else Inl (Exception ''no plugin can handle the URL''))"

definition config_example :: config where
  "config_example =
     \<lparr>output_cfg = \<lparr>folder = ''output'', bestFolder = ''best'', masterFolder = ''master''\<rparr>,
      channels = [channel_one, channel_two, channel_three]\<rparr>"

definition env_example :: env where
  "env_example = \<lparr>load_config = Inr config_example, makedirs = (\<lambda>p. None), open_w = (\<lambda>p. None),
                   library = library_example\<rparr>"

definition env_other_headers :: env where
  "env_other_headers =
     \<lparr>load_config = Inr (config_example\<lparr>channels :=
          [channel_one\<lparr>headers := Some [(''Cookie'', ''secret''), (''User-Agent'', ''other'')]\<rparr>,
           channel_two,
           channel_three\<lparr>headers := None\<rparr>]\<rparr>),
      makedirs = (\<lambda>p. None), open_w = (\<lambda>p. None), library = library_example\<rparr>"

definition env_no_config :: env where
  "env_no_config = env_example\<lparr>load_config := Inl (Exception ''no such file'')\<rparr>"


chapter \<open>Properties\<close>

section \<open>Empty results\<close>

lemma build_playlists_loop_not_rendered:
  "\<not> rendered pl \<Longrightarrow> build_playlists_loop (pl # rest) st = build_playlists_loop rest st"
  by (cases st; cases "stream_info pl") (simp_all add: rendered_def)

lemma build_playlists_loop_skip:
  "\<forall>pl \<in> set pls. \<not> rendered pl \<Longrightarrow> build_playlists_loop pls st = st"
  by (induction pls) (simp_all add: build_playlists_loop_not_rendered del: build_playlists_loop.simps(2))

lemma build_master_and_best_loop_not_rendered:
  "\<not> rendered pl \<Longrightarrow>
     build_master_and_best_loop ((i, pl) # rest) st = build_master_and_best_loop rest st"
  by (cases st; cases "stream_info pl") (simp_all add: rendered_def)

lemma build_master_and_best_loop_skip:
  "\<forall>pl \<in> snd ` set ipls. \<not> rendered pl \<Longrightarrow> build_master_and_best_loop ipls st = st"
proof (induction ipls)
  case Nil
  show ?case by simp
next
  case (Cons ipl ipls)
  obtain i pl where ipl: "ipl = (i, pl)" by (cases ipl)
  from Cons.prems have "\<not> rendered pl" and rest: "\<forall>q \<in> snd ` set ipls. \<not> rendered q"
    by (simp_all add: ipl)
  then show ?case
    using Cons.IH [OF rest] by (simp add: ipl build_master_and_best_loop_not_rendered
        del: build_master_and_best_loop.simps(2))
qed

lemma snd_set_enumerate: "snd ` set (enumerate n xs) = set xs"
  by (induction xs arbitrary: n) auto

lemma set_sorted_reverse: "set (sorted_reverse key xs) = set xs"
  by (simp add: sorted_reverse_def)

lemma audio_only_not_rendered: "audio_only pl \<Longrightarrow> \<not> rendered pl"
  by (simp add: audio_only_def rendered_def split: option.splits)

text \<open>
  C5. When the variant list of the multivariant playlist is empty, or every variant in it is
  audio only, both synthesis implementations return \<^verbatim>\<open>(None, None)\<close>: neither a master
  body nor a best body, and in particular no header-only document. (The empty list is the
  case where the condition on every variant holds of none.)
\<close>

theorem empty_or_audio_only_gives_nothing:
  assumes "map_of streams ''best'' = Some best_stream"
    and "multivariant best_stream = Some mv"
    and "playlists mv = [] \<or> (\<forall>pl \<in> set (playlists mv). audio_only pl)"
  shows "build_playlists streams = (None, None)
       \<and> build_master_and_best streams = (None, None)"
proof -
  from assms(3) have skip: "\<forall>pl \<in> set (playlists mv). \<not> rendered pl"
    by (auto dest: audio_only_not_rendered)
  have g: "build_playlists_loop (playlists mv) (0, [], []) = (0, [], [])"
    using skip by (rule build_playlists_loop_skip)
  have "\<forall>pl \<in> snd ` set (enumerate 0 (sorted_reverse height_of (playlists mv))). \<not> rendered pl"
    using skip by (simp add: snd_set_enumerate set_sorted_reverse)
  then have u: "build_master_and_best_loop
                  (enumerate 0 (sorted_reverse height_of (playlists mv))) ([], []) = ([], [])"
    by (rule build_master_and_best_loop_skip)
  show ?thesis
    using assms(1,2) g u by (simp add: build_playlists_def build_master_and_best_def)
qed


text \<open>The theorem of C5 at a list of two audio-only variants and at the empty list.\<close>

theorem empty_or_audio_only_gives_nothing_witness:
  "audio_only a480 \<and> audio_only audio0
   \<and> build_playlists (best_of \<lparr>playlists = [a480, audio0], version = Some 3\<rparr>) = (None, None)
   \<and> build_master_and_best (best_of \<lparr>playlists = [a480, audio0], version = Some 3\<rparr>) = (None, None)
   \<and> build_playlists (best_of \<lparr>playlists = [], version = Some 3\<rparr>) = (None, None)
   \<and> build_master_and_best (best_of \<lparr>playlists = [], version = Some 3\<rparr>) = (None, None)"
proof -
  have a: "audio_only a480 \<and> audio_only audio0"
    by (simp add: audio_only_def a480_def audio0_def)
  show ?thesis
    using a
      empty_or_audio_only_gives_nothing
        [of "best_of \<lparr>playlists = [a480, audio0], version = Some 3\<rparr>"
            "\<lparr>multivariant = Some \<lparr>playlists = [a480, audio0], version = Some 3\<rparr>\<rparr>"
            "\<lparr>playlists = [a480, audio0], version = Some 3\<rparr>"]
      empty_or_audio_only_gives_nothing
        [of "best_of \<lparr>playlists = [], version = Some 3\<rparr>"
            "\<lparr>multivariant = Some \<lparr>playlists = [], version = Some 3\<rparr>\<rparr>"
            "\<lparr>playlists = [], version = Some 3\<rparr>"]
    by (simp add: best_of_def)
qed


section \<open>Rendered blocks and the two loops\<close>

lemma stream_info_to_extinf_nonempty: "stream_info_to_extinf si u \<noteq> []"
  by (simp add: stream_info_to_extinf_def Let_def split: option.splits)

lemma info_to_text_nonempty: "info_to_text si u \<noteq> []"
  by (simp add: info_to_text_def Let_def split: option.splits)

lemma block_u_nonempty: "block_u pl \<noteq> []"
  by (simp add: block_u_def stream_info_to_extinf_nonempty)

lemma block_g_nonempty: "block_g pl \<noteq> []"
  by (simp add: block_g_def info_to_text_nonempty)

lemma concat_blocks_empty_u: "concat (map block_u vs) = [] \<longleftrightarrow> vs = []"
  by (cases vs) (simp_all add: block_u_nonempty)

lemma concat_blocks_empty_g: "concat (map block_g vs) = [] \<longleftrightarrow> vs = []"
  by (cases vs) (simp_all add: block_g_nonempty)

lemma build_master_and_best_loop_rendered:
  "rendered pl \<Longrightarrow>
     build_master_and_best_loop ((i, pl) # rest) (m, b) =
     build_master_and_best_loop rest (m @ block_u pl, if i = 0 then block_u pl else b)"
  by (cases "stream_info pl") (simp_all add: rendered_def block_u_def Let_def)

lemma build_playlists_loop_rendered:
  "rendered pl \<Longrightarrow>
     build_playlists_loop (pl # rest) (p, m, b) =
     (if height_of pl > p
      then build_playlists_loop rest (height_of pl, block_g pl @ m, block_g pl)
      else build_playlists_loop rest (height_of pl, m @ block_g pl, b))"
  by (cases "stream_info pl") (simp_all add: rendered_def block_g_def height_of_def Let_def)

lemma build_master_and_best_loop_enumerate:
  "build_master_and_best_loop (enumerate k pls) (m, b) =
     (m @ concat (map block_u (filter rendered pls)),
      if k = 0 \<and> pls \<noteq> [] \<and> rendered (hd pls) then block_u (hd pls) else b)"
proof (induction pls arbitrary: k m b)
  case Nil
  show ?case by simp
next
  case (Cons pl pls)
  show ?case
  proof (cases "rendered pl")
    case True
    then show ?thesis
      by (simp add: build_master_and_best_loop_rendered Cons.IH
          del: build_master_and_best_loop.simps(2))
  next
    case False
    then show ?thesis
      by (simp add: build_master_and_best_loop_not_rendered Cons.IH
          del: build_master_and_best_loop.simps(2))
  qed
qed

lemma build_playlists_loop_blocks:
  "\<exists>p' vs b'. build_playlists_loop pls (p, concat (map block_g acc), b) =
       (p', concat (map block_g vs), b') \<and> mset vs = mset acc + mset (filter rendered pls)"
proof (induction pls arbitrary: p acc b)
  case Nil
  show ?case
    by (intro exI [of _ p] exI [of _ acc] exI [of _ b]) simp
next
  case (Cons pl pls)
  show ?case
  proof (cases "rendered pl")
    case False
    then show ?thesis
      using Cons.IH [of p acc b]
      by (simp add: build_playlists_loop_not_rendered del: build_playlists_loop.simps(2))
  next
    case True
    show ?thesis
    proof (cases "height_of pl > p")
      case True
      from Cons.IH [of "height_of pl" "pl # acc" "block_g pl"]
      show ?thesis
        using \<open>rendered pl\<close> True
        by (simp add: build_playlists_loop_rendered del: build_playlists_loop.simps(2))
    next
      case False
      from Cons.IH [of "height_of pl" "acc @ [pl]" b]
      show ?thesis
        using \<open>rendered pl\<close> False
        by (simp add: build_playlists_loop_rendered del: build_playlists_loop.simps(2))
    qed
  qed
qed

lemma build_playlists_loop_descending:
  "sorted_wrt (\<lambda>x y. x \<ge> y) (map height_of (filter rendered pls)) \<Longrightarrow>
   \<forall>pl \<in> set (filter rendered pls). height_of pl \<le> p \<Longrightarrow>
   snd (build_playlists_loop pls (p, m, b)) = (m @ concat (map block_g (filter rendered pls)), b)"
proof (induction pls arbitrary: p m b)
  case Nil
  show ?case by simp
next
  case (Cons pl pls)
  show ?case
  proof (cases "rendered pl")
    case False
    then show ?thesis
      using Cons.IH [of p m b] Cons.prems
      by (simp add: build_playlists_loop_not_rendered del: build_playlists_loop.simps(2))
  next
    case True
    with Cons.prems have le: "height_of pl \<le> p"
      and s: "sorted_wrt (\<lambda>x y. x \<ge> y) (map height_of (filter rendered pls))"
      and b: "\<forall>q \<in> set (filter rendered pls). height_of q \<le> height_of pl"
      by auto
    from Cons.IH [OF s b, of "m @ block_g pl" b] show ?thesis
      using True le
      by (simp add: build_playlists_loop_rendered del: build_playlists_loop.simps(2))
  qed
qed

lemma build_playlists_loop_descending_start:
  "sorted_wrt (\<lambda>x y. x \<ge> y) (map height_of (filter rendered pls)) \<Longrightarrow>
   filter rendered pls = v # vs \<Longrightarrow> 0 < height_of v \<Longrightarrow>
   snd (build_playlists_loop pls (0, [], [])) = (concat (map block_g (v # vs)), block_g v)"
proof (induction pls)
  case Nil
  then show ?case by simp
next
  case (Cons pl pls)
  show ?case
  proof (cases "rendered pl")
    case False
    then show ?thesis
      using Cons
      by (simp add: build_playlists_loop_not_rendered del: build_playlists_loop.simps(2))
  next
    case True
    with Cons.prems have eq: "pl = v" "filter rendered pls = vs"
      and s: "sorted_wrt (\<lambda>x y. x \<ge> y) (map height_of (filter rendered pls))"
      and b: "\<forall>q \<in> set (filter rendered pls). height_of q \<le> height_of pl"
      by auto
    from build_playlists_loop_descending [OF s b, of "block_g pl" "block_g pl"] show ?thesis
      using True Cons.prems(3) eq
      by (simp add: build_playlists_loop_rendered del: build_playlists_loop.simps(2))
  qed
qed

lemma mset_filter_sorted_reverse:
  "mset (sorted_reverse key (filter P xs)) = mset (filter P xs)"
  by (simp add: sorted_reverse_def)

lemma filter_sorted_reverse:
  "filter P (sorted_reverse key xs) = sorted_reverse key (filter P xs)"
  by (simp add: sorted_reverse_def filter_sort)

lemma sorted_reverse_descending:
  "sorted_wrt (\<lambda>x y. key x \<ge> key y) (sorted_reverse key xs)"
proof -
  have "sorted (map (\<lambda>x. - key x) (sort_key (\<lambda>x. - key x) xs))" by simp
  then show ?thesis
    by (simp add: sorted_reverse_def sorted_wrt_map sorted_wrt_iff_nth_less)
qed

lemma sorted_reverse_stable:
  "filter (\<lambda>x. key x = k) (sorted_reverse key xs) = filter (\<lambda>x. key x = k) xs"
  using sort_key_stable [of "\<lambda>x. - key x" "- k" xs] by (simp add: sorted_reverse_def)

lemma hd_sorted_reverse_max:
  assumes "x \<in> set xs"
  shows "key x \<le> key (hd (sorted_reverse key xs))"
proof -
  let ?s = "sorted_reverse key xs"
  from assms have "x \<in> set ?s" by (simp add: set_sorted_reverse)
  then obtain y ys where s: "?s = y # ys" by (cases ?s) auto
  with sorted_reverse_descending [of key xs] have "\<forall>z \<in> set ys. key z \<le> key y" by simp
  with \<open>x \<in> set ?s\<close> s show ?thesis by auto
qed

lemma hd_filter_hd: "xs \<noteq> [] \<Longrightarrow> P (hd xs) \<Longrightarrow> hd (filter P xs) = hd xs"
  by (cases xs) simp_all

lemma build_master_and_best_sorted:
  assumes b: "map_of streams ''best'' = Some best_stream"
    and m: "multivariant best_stream = Some mv"
    and ne: "playlists mv \<noteq> []"
    and r: "rendered (hd (sorted_reverse height_of (playlists mv)))"
  shows "build_master_and_best streams =
           (Some (add_headers mv (concat (map block_u (sorted_reverse height_of (filter rendered (playlists mv)))))),
            Some (add_headers mv (block_u (hd (sorted_reverse height_of (filter rendered (playlists mv)))))))"
proof -
  let ?s = "sorted_reverse height_of (playlists mv)"
  from ne have sne: "?s \<noteq> []"
    using set_sorted_reverse [of height_of "playlists mv"] by (cases "playlists mv") auto
  have loop: "build_master_and_best_loop (enumerate 0 ?s) ([], []) =
        (concat (map block_u (filter rendered ?s)), block_u (hd ?s))"
    using sne r by (simp add: build_master_and_best_loop_enumerate)
  have f: "filter rendered ?s = sorted_reverse height_of (filter rendered (playlists mv))"
    by (rule filter_sorted_reverse)
  have h: "hd (filter rendered ?s) = hd ?s"
    using sne r by (rule hd_filter_hd)
  have fne: "filter rendered ?s \<noteq> []"
    using sne r by (cases ?s) auto
  have cne: "concat (map block_u (filter rendered ?s)) \<noteq> []"
    using fne concat_blocks_empty_u [of "filter rendered ?s"] by blast
  have res: "build_master_and_best streams =
      (Some (add_headers mv (concat (map block_u (filter rendered ?s)))),
       Some (add_headers mv (block_u (hd ?s))))"
    using b m ne cne block_u_nonempty [of "hd ?s"]
    by (simp add: build_master_and_best_def loop del: concat_eq_Nil_conv)
  show ?thesis
    using res h by (simp add: f)
qed

section \<open>The example variants, evaluated\<close>

lemmas example_defs =
  v1080_def v720_def v480_def a480_def audio0_def video0_def best_of_def

lemma example_rendered:
  "rendered video0 \<and> \<not> rendered audio0 \<and> rendered v1080 \<and> rendered v720 \<and> rendered v480
   \<and> \<not> rendered a480"
  by (simp add: rendered_def example_defs)

lemma example_heights:
  "height_of v1080 = 1080 \<and> height_of v720 = 720 \<and> height_of v480 = 480 \<and> height_of a480 = 480
   \<and> height_of audio0 = 0 \<and> height_of video0 = 0"
  by (simp add: height_of_def example_defs)

lemma example_sorted_up_down: "sorted_reverse height_of [v1080, v480, v720] = [v1080, v720, v480]"
  by (simp add: sorted_reverse_def example_heights)

lemma example_sorted_no_resolution: "sorted_reverse height_of [audio0, video0] = [audio0, video0]"
  by (simp add: sorted_reverse_def example_heights)

lemma example_sorted_video_first: "sorted_reverse height_of [video0, audio0] = [video0, audio0]"
  by (simp add: sorted_reverse_def example_heights)

lemma example_explicit_sort_nothing:
  "build_master_and_best (best_of \<lparr>playlists = [audio0, video0], version = None\<rparr>) = (None, None)"
  by (simp add: build_master_and_best_def best_of_def example_sorted_no_resolution
      build_master_and_best_loop_enumerate example_rendered
      del: enumerate_simps)

lemma example_explicit_sort_video_first:
  "build_master_and_best (best_of \<lparr>playlists = [video0, audio0], version = None\<rparr>) =
     (Some (''#EXTM3U\<newline>'' @ block_u video0), Some (''#EXTM3U\<newline>'' @ block_u video0))"
proof -
  let ?mv = "\<lparr>playlists = [video0, audio0], version = None\<rparr>"
  have r: "rendered (hd (sorted_reverse height_of (playlists ?mv)))"
    by (simp add: example_sorted_video_first example_rendered)
  have s: "sorted_reverse height_of [video0] = [video0]" by (simp add: sorted_reverse_def)
  show ?thesis
    using build_master_and_best_sorted [of "best_of ?mv" "\<lparr>multivariant = Some ?mv\<rparr>" ?mv] r
    by (simp add: best_of_def example_rendered s add_headers_def truthy_int_def)
qed

lemma example_explicit_sort_one:
  "build_master_and_best (best_of \<lparr>playlists = [video0], version = None\<rparr>) =
     (Some (''#EXTM3U\<newline>'' @ block_u video0), Some (''#EXTM3U\<newline>'' @ block_u video0))"
proof -
  let ?mv = "\<lparr>playlists = [video0], version = None\<rparr>"
  have s: "sorted_reverse height_of [video0] = [video0]" by (simp add: sorted_reverse_def)
  have r: "rendered (hd (sorted_reverse height_of (playlists ?mv)))"
    by (simp add: s example_rendered)
  show ?thesis
    using build_master_and_best_sorted [of "best_of ?mv" "\<lparr>multivariant = Some ?mv\<rparr>" ?mv] r
    by (simp add: best_of_def example_rendered s add_headers_def truthy_int_def)
qed

lemma example_explicit_sort_order:
  "build_master_and_best (best_of \<lparr>playlists = [v1080, v480, v720], version = None\<rparr>) =
     (Some (''#EXTM3U\<newline>'' @ block_u v1080 @ block_u v720 @ block_u v480),
      Some (''#EXTM3U\<newline>'' @ block_u v1080))"
proof -
  let ?mv = "\<lparr>playlists = [v1080, v480, v720], version = None\<rparr>"
  have r: "rendered (hd (sorted_reverse height_of (playlists ?mv)))"
    by (simp add: example_sorted_up_down example_rendered)
  show ?thesis
    using build_master_and_best_sorted [of "best_of ?mv" "\<lparr>multivariant = Some ?mv\<rparr>" ?mv] r
    by (simp add: best_of_def example_rendered example_sorted_up_down add_headers_def truthy_int_def)
qed

lemma example_single_pass_order:
  "build_playlists (best_of \<lparr>playlists = [v1080, v480, v720], version = None\<rparr>) =
     (Some (''#EXTM3U\<newline>'' @ block_g v720 @ block_g v1080 @ block_g v480),
      Some (''#EXTM3U\<newline>'' @ block_g v720))"
  by (simp add: build_playlists_def best_of_def build_playlists_loop_rendered example_rendered
      example_heights block_g_nonempty add_headers_def truthy_int_def
      del: build_playlists_loop.simps(2))

lemma example_single_pass_audio_first:
  "build_playlists (best_of \<lparr>playlists = [audio0, video0], version = None\<rparr>) =
     (Some (''#EXTM3U\<newline>'' @ block_g video0), Some ''#EXTM3U\<newline>'')"
  by (simp add: build_playlists_def best_of_def build_playlists_loop_rendered
      build_playlists_loop_not_rendered example_rendered example_heights block_g_nonempty
      add_headers_def truthy_int_def
      del: build_playlists_loop.simps(2))

lemma example_single_pass_one:
  "build_playlists (best_of \<lparr>playlists = [video0], version = None\<rparr>) =
     (Some (''#EXTM3U\<newline>'' @ block_g video0), Some ''#EXTM3U\<newline>'')"
  by (simp add: build_playlists_def best_of_def build_playlists_loop_rendered example_rendered
      example_heights block_g_nonempty add_headers_def truthy_int_def
      del: build_playlists_loop.simps(2))

lemma example_blocks_agree:
  "block_g v1080 = block_u v1080 \<and> block_g v720 = block_u v720 \<and> block_g v480 = block_u v480"
  by (simp add: block_g_def block_u_def info_to_text_def stream_info_to_extinf_def
      v1080_def v720_def v480_def)

lemma example_first_lines_differ:
  "block_u v720 @ block_u v1080 \<noteq> block_u v1080 @ block_u v720"
  by (simp add: block_u_def stream_info_to_extinf_def Let_def truthy_int_def truthy_str_def
      truthy_list_def str_int_def digits.simps v1080_def v720_def)

lemma example_blocks_differ: "block_g v720 \<noteq> block_g v1080"
  by (simp add: block_g_def info_to_text_def Let_def truthy_int_def truthy_str_def
      truthy_list_def str_int_def digits.simps v1080_def v720_def)


section \<open>The master body\<close>

text \<open>
  C1 (the code at the failing inputs). The claim asks, for every variant set with a non-audio
  variant, for a master body with one block per non-audio variant, the block of maximum
  height first.
  \<^item> With an audio-only variant followed by a video variant, both without a resolution,
    \<^verbatim>\<open>build_master_and_best\<close> returns \<^verbatim>\<open>(None, None)\<close>: no master body, although a non-audio
    variant is there. It sets its best text at index 0 of the sorted list before the
    audio-only variants are skipped. For the same two variants in the other order it returns
    the master body with the block of the video variant, and so does \<^verbatim>\<open>build_playlists\<close> for
    the first order.
  \<^item> With heights 1080, 480, 720 in source order, the master body of \<^verbatim>\<open>build_playlists\<close>
    lists 720, 1080, 480: its first block is not the one of maximum height, since each
    height is compared with the height of the variant before it. \<^verbatim>\<open>build_master_and_best\<close>
    lists 1080, 720, 480.
\<close>

theorem master_body_at_failing_inputs:
  "rendered video0 \<and> \<not> rendered audio0
   \<and> build_master_and_best (best_of \<lparr>playlists = [audio0, video0], version = None\<rparr>) = (None, None)
   \<and> fst (build_master_and_best (best_of \<lparr>playlists = [video0, audio0], version = None\<rparr>)) =
       Some (''#EXTM3U\<newline>'' @ block_u video0)
   \<and> fst (build_playlists (best_of \<lparr>playlists = [audio0, video0], version = None\<rparr>)) =
       Some (''#EXTM3U\<newline>'' @ block_g video0)
   \<and> map height_of [v1080, v480, v720] = [1080, 480, 720]
   \<and> fst (build_playlists (best_of \<lparr>playlists = [v1080, v480, v720], version = None\<rparr>)) =
       Some (''#EXTM3U\<newline>'' @ block_g v720 @ block_g v1080 @ block_g v480)
   \<and> fst (build_master_and_best (best_of \<lparr>playlists = [v1080, v480, v720], version = None\<rparr>)) =
       Some (''#EXTM3U\<newline>'' @ block_u v1080 @ block_u v720 @ block_u v480)"
  by (simp add: example_rendered example_heights example_explicit_sort_nothing
      example_explicit_sort_video_first example_single_pass_audio_first example_single_pass_order
      example_explicit_sort_order)


section \<open>The best body\<close>

text \<open>
  C2 (the code at the failing inputs). The claim asks, for every variant set with a surviving
  variant, for a best body that is the header lines and the single block of the first
  surviving variant in height-descending order.
  \<^item> With an audio-only variant followed by a video variant, both without a resolution,
    \<^verbatim>\<open>build_master_and_best\<close> returns no best body; for the other order it returns the block
    of the video variant.
  \<^item> With a single video variant without a resolution, the best body of \<^verbatim>\<open>build_playlists\<close>
    is the header line alone (the best text is set only for a height above the previous one,
    which starts at 0); \<^verbatim>\<open>build_master_and_best\<close> returns the block of the variant.
  \<^item> With heights 1080, 480, 720 in source order, the best body of \<^verbatim>\<open>build_playlists\<close> is the
    block of height 720; \<^verbatim>\<open>build_master_and_best\<close> returns the block of height 1080.
\<close>

theorem best_body_at_failing_inputs:
  "rendered video0 \<and> \<not> rendered audio0
   \<and> snd (build_master_and_best (best_of \<lparr>playlists = [audio0, video0], version = None\<rparr>)) = None
   \<and> snd (build_master_and_best (best_of \<lparr>playlists = [video0, audio0], version = None\<rparr>)) =
       Some (''#EXTM3U\<newline>'' @ block_u video0)
   \<and> snd (build_playlists (best_of \<lparr>playlists = [video0], version = None\<rparr>)) =
       Some ''#EXTM3U\<newline>''
   \<and> snd (build_master_and_best (best_of \<lparr>playlists = [video0], version = None\<rparr>)) =
       Some (''#EXTM3U\<newline>'' @ block_u video0)
   \<and> map height_of [v1080, v480, v720] = [1080, 480, 720]
   \<and> snd (build_playlists (best_of \<lparr>playlists = [v1080, v480, v720], version = None\<rparr>)) =
       Some (''#EXTM3U\<newline>'' @ block_g v720)
   \<and> block_g v720 \<noteq> block_g v1080
   \<and> snd (build_master_and_best (best_of \<lparr>playlists = [v1080, v480, v720], version = None\<rparr>)) =
       Some (''#EXTM3U\<newline>'' @ block_u v1080)"
  by (simp add: example_rendered example_heights example_explicit_sort_nothing
      example_explicit_sort_video_first example_single_pass_one example_explicit_sort_one
      example_single_pass_order example_explicit_sort_order example_blocks_differ)

text \<open>The specification's example: heights 1080, 720 and 480, the last one audio only. Both
  implementations list 1080 then 720 in the master body and return the 1080 block alone as
  best body.\<close>

lemma specification_example:
  "build_master_and_best (best_of \<lparr>playlists = [v1080, v720, a480], version = Some 3\<rparr>) =
     (Some (add_headers \<lparr>playlists = [v1080, v720, a480], version = Some 3\<rparr>
              (block_u v1080 @ block_u v720)),
      Some (add_headers \<lparr>playlists = [v1080, v720, a480], version = Some 3\<rparr> (block_u v1080)))
   \<and> build_playlists (best_of \<lparr>playlists = [v1080, v720, a480], version = Some 3\<rparr>) =
     (Some (add_headers \<lparr>playlists = [v1080, v720, a480], version = Some 3\<rparr>
              (block_g v1080 @ block_g v720)),
      Some (add_headers \<lparr>playlists = [v1080, v720, a480], version = Some 3\<rparr> (block_g v1080)))"
proof -
  let ?mv = "\<lparr>playlists = [v1080, v720, a480], version = Some 3\<rparr>"
  have s: "sorted_reverse height_of (playlists ?mv) = [v1080, v720, a480]"
    by (simp add: sorted_reverse_def example_heights)
  have s': "sorted_reverse height_of [v1080, v720] = [v1080, v720]"
    by (simp add: sorted_reverse_def example_heights)
  have r: "rendered (hd (sorted_reverse height_of (playlists ?mv)))"
    using s by (simp add: example_rendered)
  have u: "build_master_and_best (best_of ?mv) =
     (Some (add_headers ?mv (block_u v1080 @ block_u v720)), Some (add_headers ?mv (block_u v1080)))"
    using build_master_and_best_sorted [of "best_of ?mv" "\<lparr>multivariant = Some ?mv\<rparr>" ?mv] r
    by (simp add: best_of_def example_rendered s')
  have g: "build_playlists (best_of ?mv) =
     (Some (add_headers ?mv (block_g v1080 @ block_g v720)), Some (add_headers ?mv (block_g v1080)))"
    by (simp add: build_playlists_def best_of_def build_playlists_loop_rendered
        build_playlists_loop_not_rendered example_rendered example_heights block_g_nonempty
        del: build_playlists_loop.simps(2))
  from u g show ?thesis by simp
qed


section \<open>The two implementations are not interchangeable\<close>

text \<open>
  C3. The variant list with heights 1080, 480, 720 in source order is neither descending nor
  ascending, and both renderers produce the same block for each of its variants. On it both
  implementations produce a master body: \<^verbatim>\<open>build_playlists\<close> (which puts a block in front
  whenever its height exceeds the previous variant's) lists the blocks 720, 1080, 480, and
  \<^verbatim>\<open>build_master_and_best\<close> (which sorts) lists the same blocks as 1080, 720, 480. The two
  bodies differ, so the two implementations are not extensionally equal.
\<close>

theorem implementations_differ_on_non_monotonic_heights:
  "map height_of [v1080, v480, v720] = [1080, 480, 720]
   \<and> \<not> sorted_wrt (\<lambda>x y. x \<ge> y) (map height_of [v1080, v480, v720])
   \<and> \<not> sorted_wrt (\<lambda>x y. x \<le> y) (map height_of [v1080, v480, v720])
   \<and> list_all (\<lambda>pl. block_g pl = block_u pl) [v1080, v480, v720]
   \<and> fst (build_playlists (best_of \<lparr>playlists = [v1080, v480, v720], version = None\<rparr>)) =
       Some (''#EXTM3U\<newline>'' @ block_g v720 @ block_g v1080 @ block_g v480)
   \<and> fst (build_master_and_best (best_of \<lparr>playlists = [v1080, v480, v720], version = None\<rparr>)) =
       Some (''#EXTM3U\<newline>'' @ block_g v1080 @ block_g v720 @ block_g v480)
   \<and> fst (build_playlists (best_of \<lparr>playlists = [v1080, v480, v720], version = None\<rparr>))
       \<noteq> fst (build_master_and_best (best_of \<lparr>playlists = [v1080, v480, v720], version = None\<rparr>))"
  using example_first_lines_differ
  by (simp add: example_heights example_blocks_agree example_single_pass_order
      example_explicit_sort_order)


section \<open>The attribute line\<close>

text \<open>Whenever a variant has no resolution but another attribute is rendered, both
  renderers end the attribute line with a comma.\<close>

lemma dangling_comma_without_resolution:
  assumes "resolution si = None"
    and "truthy_str (program_id si) \<or> truthy_int (bandwidth si) \<or> truthy_list (codecs si)"
  shows "\<exists>attrs. stream_info_to_extinf si u = attrs @ '','' @ ''\<newline>'' @ u @ ''\<newline>''
               \<and> info_to_text si u = attrs @ '','' @ ''\<newline>'' @ u @ ''\<newline>''"
  using assms by (auto simp add: stream_info_to_extinf_def info_to_text_def Let_def)

text \<open>
  C4 (the code at the failing inputs). For a variant with a bandwidth and no resolution both
  renderers produce an attribute line that ends with a dangling comma; and
  \<^verbatim>\<open>info_to_text\<close>, which tests the width only, emits \<^verbatim>\<open>RESOLUTION=1920x0\<close> for a height
  of 0.
\<close>

theorem attribute_line_has_dangling_comma:
  "stream_info_to_extinf (the (stream_info video0)) (uri video0) =
     ''#EXT-X-STREAM-INF:BANDWIDTH=900000,\<newline>https://cdn.example/video.m3u8\<newline>''
   \<and> info_to_text (the (stream_info video0)) (uri video0) =
     ''#EXT-X-STREAM-INF:BANDWIDTH=900000,\<newline>https://cdn.example/video.m3u8\<newline>''
   \<and> info_to_text \<lparr>program_id = None, bandwidth = None, codecs = None,
                     resolution = Some \<lparr>width = 1920, height = 0\<rparr>, video = None\<rparr> ''u'' =
     ''#EXT-X-STREAM-INF:RESOLUTION=1920x0\<newline>u\<newline>''"
  by (simp add: stream_info_to_extinf_def info_to_text_def Let_def truthy_int_def truthy_str_def
      truthy_list_def str_int_def digits.simps video0_def)

section \<open>The model of Python's stable descending sort\<close>

text \<open>\<^term>\<open>sorted_reverse\<close> returns a permutation of its input, descending by key, in which
  elements with equal keys keep their source order.\<close>

lemma sorted_reverse_is_stable_descending_permutation:
  "mset (sorted_reverse key xs) = mset xs
   \<and> sorted_wrt (\<lambda>x y. key x \<ge> key y) (sorted_reverse key xs)
   \<and> filter (\<lambda>x. key x = k) (sorted_reverse key xs) = filter (\<lambda>x. key x = k) xs"
  using sorted_reverse_descending [of key xs] sorted_reverse_stable [of key k xs]
  by (simp add: sorted_reverse_def)


section \<open>The manifest resolver\<close>

text \<open>\<^term>\<open>search\<close> returns the first match at the leftmost offset where the pattern matches.\<close>

lemma search_leftmost:
  "i \<le> length s \<Longrightarrow> \<forall>j<i. matches r (drop j s, []) = [] \<Longrightarrow>
   matches r (drop i s, []) = m # ms \<Longrightarrow> search r s = Some m"
proof (induction s arbitrary: i)
  case Nil
  then show ?case by simp
next
  case (Cons c cs)
  show ?case
  proof (cases i)
    case 0
    with Cons.prems show ?thesis by simp
  next
    case (Suc k)
    with Cons.prems have k: "k \<le> length cs" and at: "matches r (drop k cs, []) = m # ms" by simp_all
    from Cons.prems(2) Suc have none0: "matches r (c # cs, []) = []" by fastforce
    have "\<forall>j<k. matches r (drop j cs, []) = []"
    proof (intro allI impI)
      fix j assume "j < k"
      then have "Suc j < i" using Suc by simp
      with Cons.prems(2) have "matches r (drop (Suc j) (c # cs), []) = []" by blast
      then show "matches r (drop j cs, []) = []" by simp
    qed
    from Cons.IH [OF k this at] none0 show ?thesis by simp
  qed
qed

lemma search_None:
  "(\<forall>j\<le>length s. matches r (drop j s, []) = []) \<Longrightarrow> search r s = None"
proof (induction s)
  case Nil
  then show ?case by simp
next
  case (Cons c cs)
  from Cons.prems have "matches r (drop 0 (c # cs), []) = []" by blast
  then have none0: "matches r (c # cs, []) = []" by simp
  have "\<forall>j\<le>length cs. matches r (drop j cs, []) = []"
  proof (intro allI impI)
    fix j assume "j \<le> length cs"
    then have "Suc j \<le> length (c # cs)" by simp
    with Cons.prems have "matches r (drop (Suc j) (c # cs), []) = []" by blast
    then show "matches r (drop j cs, []) = []" by simp
  qed
  from Cons.IH [OF this] none0 show ?case by simp
qed

text \<open>\<^verbatim>\<open>_get_streams\<close> by cases: the page, steps 2 and 3 on it, the iframe, steps 2 and 3 on
  the text behind it.\<close>

lemma get_streams_cases:
  "EurostarTV_get_streams http_get urljoin page_url =
     (case http_get page_url of
        Inl e \<Rightarrow> Inl e
      | Inr html \<Rightarrow>
          (case direct_or_player html of
             Some u \<Rightarrow> Inr (ParseVariantPlaylist u)
           | None \<Rightarrow>
               (case find_iframe_url urljoin html page_url of
                  None \<Rightarrow> Inr NotFound
                | Some iframe_url \<Rightarrow>
                    if iframe_url = [] then Inr NotFound
                    else
                      (case http_get iframe_url of
                         Inl e \<Rightarrow> Inl e
                       | Inr html2 \<Rightarrow>
                           (case direct_or_player html2 of
                              Some u \<Rightarrow> Inr (ParseVariantPlaylist u)
                            | None \<Rightarrow> Inr NotFound)))))"
  by (auto simp add: EurostarTV_get_streams_def EurostarTV_fetch_def direct_or_player_def Let_def
      truthy_str_def split: sum.splits option.splits)

text \<open>
  C6 (as amended). The player-configuration search returns the match that starts at the
  leftmost offset of the text at which any of the three sub-forms matches. The fixed order
  (the \<^verbatim>\<open>src\<close> of a \<^verbatim>\<open>source\<close> object, then \<^verbatim>\<open>file\<close>, then \<^verbatim>\<open>hls\<close>) decides only between
  sub-forms that match at that same offset: the match returned is the first one of the
  \<^verbatim>\<open>source\<close> form there, else of the \<^verbatim>\<open>file\<close> form, else of the \<^verbatim>\<open>hls\<close> form, and its
  groups are read in this order.
\<close>

theorem player_source_is_leftmost_match:
  assumes "i \<le> length text"
    and "\<forall>j<i. matches source_form (drop j text, []) = []
             \<and> matches file_form (drop j text, []) = []
             \<and> matches hls_form (drop j text, []) = []"
    and "matches source_form (drop i text, []) @ matches file_form (drop i text, [])
           @ matches hls_form (drop i text, []) = m # ms"
  shows "find_player_source_url text =
           py_or (py_or (match_group m ''src1'') (match_group m ''src2'')) (match_group m ''src3'')"
proof -
  have none: "\<forall>j<i. matches re_source_url (drop j text, []) = []"
    using assms(2) by (simp add: re_source_url_def)
  have at: "matches re_source_url (drop i text, []) = m # ms"
    using assms(3) by (simp add: re_source_url_def)
  have "search re_source_url text = Some m"
    using assms(1) none at by (rule search_leftmost)
  then show ?thesis by (simp add: find_player_source_url_def)
qed

text \<open>
  The iframe step in terms of the pattern. Let the page load, and let its text have no direct
  manifest match and no player-configuration match. Let the iframe pattern match first at
  offset \<open>i\<close> (at no smaller offset), and let \<open>src\<close> be the text its group captures. Then the
  resolver joins \<open>src\<close> with the page URL (by \<^verbatim>\<open>urljoin\<close>, which belongs to the standard
  library and is a parameter here), fetches the joined URL, and a manifest URL that steps 2
  and 3 find in the fetched text is what it returns.
\<close>

lemma iframe_manifest_is_returned:
  assumes "http_get page_url = Inr html"
    and "find_m3u8_in_text html = None"
    and "find_player_source_url html = None"
    and "i \<le> length html"
    and "\<forall>j<i. matches re_iframe (drop j html, []) = []"
    and "matches re_iframe (drop i html, []) = m # ms"
    and "match_group m ''src'' = Some src"
    and "urljoin page_url src \<noteq> []"
    and "http_get (urljoin page_url src) = Inr html2"
    and "direct_or_player html2 = Some u"
  shows "EurostarTV_get_streams http_get urljoin page_url = Inr (ParseVariantPlaylist u)"
proof -
  have d: "direct_or_player html = None"
    using assms(2,3) by (simp add: direct_or_player_def truthy_str_def)
  have "search re_iframe html = Some m"
    using assms(4,5,6) by (rule search_leftmost)
  then have f: "find_iframe_url urljoin html page_url = Some (urljoin page_url src)"
    using assms(7) by (simp add: find_iframe_url_def)
  show ?thesis
    using assms(1,8,9,10) d f by (simp add: get_streams_cases)
qed

text \<open>
  C8 (as amended). When the page loads, steps 2 and 3 find nothing in it, an iframe URL is
  found and fetching it raises, \<^verbatim>\<open>_get_streams\<close> raises that same exception: the failure of
  the nested fetch propagates exactly as a failure of the outer fetch does.
\<close>

theorem nested_fetch_failure_propagates:
  assumes "http_get page_url = Inr html"
    and "direct_or_player html = None"
    and "find_iframe_url urljoin html page_url = Some iframe_url"
    and "iframe_url \<noteq> []"
    and "http_get iframe_url = Inl e"
  shows "EurostarTV_get_streams http_get urljoin page_url = Inl e"
  using assms by (simp add: get_streams_cases)

lemmas re_defs =
  re_iframe_def re_m3u8_def re_source_url_def source_form_def file_form_def hls_form_def
  http_url_def seq_def istr_def ichr_def one_or_more_def optional_def spaces_def quote_def
  not_quote_def url_char_def is_space_def lower_def dquote_def squote_def backslash_def
  match_group_def quoted_def

text \<open>The example pages, evaluated.\<close>

lemma page_two_forms_no_direct: "find_m3u8_in_text page_two_forms = None"
  by (simp add: find_m3u8_in_text_def page_two_forms_def re_defs)

lemma page_two_forms_file:
  "matches file_form (page_two_forms, []) =
     [('',source:{src:'' @ quoted ''http://b/s 1.m3u8'' @ ''}'', [(''src2'', ''http://a/f 1.m3u8'')])]"
  by (simp add: page_two_forms_def re_defs)

lemma page_two_forms_not_source_hls:
  "matches source_form (page_two_forms, []) = [] \<and> matches hls_form (page_two_forms, []) = []"
  by (simp add: page_two_forms_def re_defs)

lemma page_two_forms_source:
  "map_option (\<lambda>m. match_group m ''src1'') (search source_form page_two_forms) =
     Some (Some ''http://b/s 1.m3u8'')"
  by (simp add: page_two_forms_def re_defs)

lemma page_two_forms_player: "find_player_source_url page_two_forms = Some ''http://a/f 1.m3u8''"
  by (simp add: find_player_source_url_def page_two_forms_def re_defs py_or_def truthy_str_def)

text \<open>The theorem of C6 at the page with a \<^verbatim>\<open>file\<close> field before a \<^verbatim>\<open>source\<close> object.\<close>

theorem player_source_is_leftmost_match_witness:
  "matches source_form (page_two_forms, []) = []
   \<and> matches file_form (page_two_forms, []) =
       [('',source:{src:'' @ quoted ''http://b/s 1.m3u8'' @ ''}'', [(''src2'', ''http://a/f 1.m3u8'')])]
   \<and> find_player_source_url page_two_forms = Some ''http://a/f 1.m3u8''"
proof -
  let ?m = "('',source:{src:'' @ quoted ''http://b/s 1.m3u8'' @ ''}'', [(''src2'', ''http://a/f 1.m3u8'')])"
  have at: "matches source_form (drop 0 page_two_forms, []) @ matches file_form (drop 0 page_two_forms, [])
           @ matches hls_form (drop 0 page_two_forms, []) = ?m # []"
    by (simp add: page_two_forms_file page_two_forms_not_source_hls)
  have "find_player_source_url page_two_forms =
          py_or (py_or (match_group ?m ''src1'') (match_group ?m ''src2'')) (match_group ?m ''src3'')"
    using player_source_is_leftmost_match [of 0 page_two_forms ?m "[]"] at by simp
  then have "find_player_source_url page_two_forms = Some ''http://a/f 1.m3u8''"
    by (simp add: py_or_def truthy_str_def match_group_def)
  then show ?thesis
    by (simp add: page_two_forms_file page_two_forms_not_source_hls)
qed

text \<open>
  C6 as stated fails. The page matches both the \<^verbatim>\<open>source\<close> form and the \<^verbatim>\<open>file\<close> form;
  the \<^verbatim>\<open>file\<close> field comes first in the text, and its URL, not the one of the
  \<^verbatim>\<open>source\<close> object, is what the search and the resolver return.
\<close>

theorem player_source_is_leftmost_match_counterexample:
  "map_option (\<lambda>m. match_group m ''src1'') (search source_form page_two_forms) =
     Some (Some ''http://b/s 1.m3u8'')
   \<and> matches file_form (page_two_forms, []) \<noteq> []
   \<and> find_player_source_url page_two_forms = Some ''http://a/f 1.m3u8''
   \<and> EurostarTV_get_streams (\<lambda>u. Inr page_two_forms) join_example ''https://example.com/watch'' =
       Inr (ParseVariantPlaylist ''http://a/f 1.m3u8'')"
proof -
  have "contains ''.m3u8'' ''http://a/f 1.m3u8''" by simp
  then have "direct_or_player page_two_forms = Some ''http://a/f 1.m3u8''"
    by (simp add: direct_or_player_def page_two_forms_no_direct page_two_forms_player truthy_str_def)
  then show ?thesis
    by (simp add: page_two_forms_source page_two_forms_file page_two_forms_player get_streams_cases)
qed

lemma page_iframe_no_direct: "find_m3u8_in_text page_iframe = None"
  by (simp add: find_m3u8_in_text_def page_iframe_def re_defs)

lemma page_iframe_no_player: "find_player_source_url page_iframe = None"
  by (simp add: find_player_source_url_def page_iframe_def re_defs)

lemma page_iframe_before: "\<forall>j<3. matches re_iframe (drop j page_iframe, []) = []"
proof (intro allI impI)
  fix j :: nat assume "j < 3"
  then consider "j = 0" | "j = 1" | "j = 2" by linarith
  then show "matches re_iframe (drop j page_iframe, []) = []"
    by cases (simp_all add: page_iframe_def re_defs)
qed

lemma page_iframe_at:
  "matches re_iframe (drop 3 page_iframe, []) = [(''></iframe>'', [(''src'', ''/embed/live'')])]"
  by (simp add: page_iframe_def re_defs)

lemma page_iframe_url:
  "find_iframe_url join_example page_iframe ''https://example.com/watch'' =
     Some ''https://example.com/embed/live''"
  by (simp add: find_iframe_url_def join_example_def page_iframe_def re_defs)

text \<open>Inside one tag the pattern takes the last \<^verbatim>\<open>src=\<close> it can reach: its \<^verbatim>\<open>[^>]+\<close> is greedy,
  so an attribute whose name ends in \<^verbatim>\<open>src\<close> and that follows the \<^verbatim>\<open>src\<close> attribute is the one
  captured.\<close>

lemma iframe_pattern_takes_last_src:
  "find_iframe_url join_example page_iframe_two_src ''https://example.com/watch'' =
     Some ''https://example.com/lazy''"
  by (simp add: find_iframe_url_def join_example_def page_iframe_two_src_def re_defs)

lemma page_inner_direct: "direct_or_player page_inner = Some ''https://cdn.example.com/live.m3u8''"
  by (simp add: direct_or_player_def find_m3u8_in_text_def truthy_str_def page_inner_def re_defs)

text \<open>The page \<^verbatim>\<open>https://example.com/watch\<close> with the single attribute
  \<^verbatim>\<open>src="/embed/live"\<close> in its iframe: the manifest behind the iframe is returned.\<close>

lemma iframe_manifest_is_returned_example:
  "web ''https://example.com/watch'' = Inr page_iframe
   \<and> find_m3u8_in_text page_iframe = None
   \<and> find_player_source_url page_iframe = None
   \<and> join_example ''https://example.com/watch'' ''/embed/live'' = ''https://example.com/embed/live''
   \<and> web ''https://example.com/embed/live'' = Inr page_inner
   \<and> direct_or_player page_inner = Some ''https://cdn.example.com/live.m3u8''
   \<and> EurostarTV_get_streams web join_example ''https://example.com/watch'' =
       Inr (ParseVariantPlaylist ''https://cdn.example.com/live.m3u8'')"
proof -
  have j: "join_example ''https://example.com/watch'' ''/embed/live'' = ''https://example.com/embed/live''"
    by (simp add: join_example_def)
  have w1: "web ''https://example.com/watch'' = Inr page_iframe" by (simp add: web_def)
  have w2: "web (join_example ''https://example.com/watch'' ''/embed/live'') = Inr page_inner"
    by (simp add: j web_def)
  have g: "match_group (''></iframe>'', [(''src'', ''/embed/live'')]) ''src'' = Some ''/embed/live''"
    by (simp add: match_group_def)
  have ne: "join_example ''https://example.com/watch'' ''/embed/live'' \<noteq> []" by (simp add: j)
  have "3 \<le> length page_iframe" by (simp add: page_iframe_def quoted_def)
  from iframe_manifest_is_returned
    [where http_get = web and urljoin = join_example and page_url = "''https://example.com/watch''",
      OF w1 page_iframe_no_direct page_iframe_no_player this page_iframe_before page_iframe_at g ne
      w2 page_inner_direct]
  show ?thesis
    using w1 w2 j by (simp add: page_iframe_no_direct page_iframe_no_player page_inner_direct)
qed

lemma page_iframe_two_src_nothing: "direct_or_player page_iframe_two_src = None"
  by (simp add: direct_or_player_def find_m3u8_in_text_def find_player_source_url_def
      truthy_str_def page_iframe_two_src_def re_defs)

text \<open>
  C7 (the code at the failing input). The page \<^verbatim>\<open>https://example.com/watch\<close> has no direct
  manifest match and no player-configuration match, and one iframe whose \<^verbatim>\<open>src\<close> attribute
  is the relative URL \<^verbatim>\<open>/embed/live\<close>, followed by the attribute
  \<^verbatim>\<open>data-src="/lazy"\<close>; the text behind \<^verbatim>\<open>https://example.com/embed/live\<close> holds a
  manifest URL. The claim asks for that manifest URL. The resolver joins and fetches
  \<^verbatim>\<open>/lazy\<close> instead, the last \<^verbatim>\<open>src=\<close> in the tag, and the manifest behind the \<^verbatim>\<open>src\<close>
  attribute is not returned (here the fetch of \<^verbatim>\<open>/lazy\<close> raises).
\<close>

theorem iframe_src_attribute_is_not_the_url_fetched:
  "web_two_src ''https://example.com/watch'' = Inr page_iframe_two_src
   \<and> direct_or_player page_iframe_two_src = None
   \<and> web_two_src ''https://example.com/embed/live'' = Inr page_inner
   \<and> direct_or_player page_inner = Some ''https://cdn.example.com/live.m3u8''
   \<and> find_iframe_url join_example page_iframe_two_src ''https://example.com/watch'' =
       Some ''https://example.com/lazy''
   \<and> web_two_src ''https://example.com/lazy'' = Inl (Exception ''404'')
   \<and> EurostarTV_get_streams web_two_src join_example ''https://example.com/watch'' =
       Inl (Exception ''404'')"
  by (simp add: get_streams_cases page_iframe_two_src_nothing iframe_pattern_takes_last_src
      page_inner_direct web_two_src_def)

lemma page_iframe_nothing: "direct_or_player page_iframe = None"
  by (simp add: direct_or_player_def page_iframe_no_direct page_iframe_no_player truthy_str_def)

text \<open>The theorem of C8 where the client answers the page and fails on everything else.\<close>

theorem nested_fetch_failure_propagates_witness:
  "web_without_embed ''https://example.com/watch'' = Inr page_iframe
   \<and> direct_or_player page_iframe = None
   \<and> find_iframe_url join_example page_iframe ''https://example.com/watch'' =
       Some ''https://example.com/embed/live''
   \<and> web_without_embed ''https://example.com/embed/live'' = Inl (Exception ''404'')
   \<and> EurostarTV_get_streams web_without_embed join_example ''https://example.com/watch'' =
       Inl (Exception ''404'')"
proof -
  have w1: "web_without_embed ''https://example.com/watch'' = Inr page_iframe"
    by (simp add: web_without_embed_def)
  have w2: "web_without_embed ''https://example.com/embed/live'' = Inl (Exception ''404'')"
    by (simp add: web_without_embed_def)
  have ne: "''https://example.com/embed/live'' \<noteq> []" by simp
  from nested_fetch_failure_propagates
    [where http_get = web_without_embed and urljoin = join_example, OF w1 page_iframe_nothing page_iframe_url ne w2]
  show ?thesis
    using w1 w2 by (simp add: page_iframe_nothing page_iframe_url)
qed

text \<open>C8 as stated fails: the page loads, the fetch of the iframe URL raises, and the
  result is not \<^verbatim>\<open>None\<close> (the exception propagates).\<close>

theorem nested_fetch_failure_propagates_counterexample:
  "web_without_embed ''https://example.com/watch'' = Inr page_iframe
   \<and> web_without_embed ''https://example.com/embed/live'' = Inl (Exception ''404'')
   \<and> EurostarTV_get_streams web_without_embed join_example ''https://example.com/watch'' \<noteq>
       Inr NotFound"
  by (simp add: get_streams_cases page_iframe_nothing page_iframe_url web_without_embed_def)


section \<open>The batch run\<close>

text \<open>\<^verbatim>\<open>get_streams\<close> of generate.py builds the session that \<^verbatim>\<open>make_streamlink_session\<close> of
  utils.py builds, and is \<^verbatim>\<open>fetch_streams\<close>.\<close>

lemma get_streams_eq:
  "get_streams lib u hdrs log = (lib (make_streamlink_session hdrs) u, log @ [(make_streamlink_session hdrs, u)])"
  by (simp add: get_streams_def make_streamlink_session_def session_streams_def Let_def)

lemma fetch_streams_eq: "fetch_streams lib u hdrs log = get_streams lib u hdrs log"
  by (simp add: get_streams_eq fetch_streams_def session_streams_def Let_def)

text \<open>What one pass through the loop body does to the request log, the output and the two
  counters.\<close>

lemma process_channel_requests:
  "requests (process_channel w mf bf ch st) = requests st @ [request_of ch]"
  by (simp add: process_channel_def get_streams_eq request_of_def Let_def print_def failed_def
      split: sum.splits option.splits prod.splits)

lemma process_channel_out:
  "out (process_channel w mf bf ch st) = out st @ lines_of w mf bf ch"
  by (simp add: process_channel_def get_streams_eq lines_of_def outcome_def Let_def print_def
      failed_def split: sum.splits option.splits prod.splits)

lemma process_channel_success:
  "success (process_channel w mf bf ch st) =
     success st + (if channel_succeeds w mf bf ch then 1 else 0)"
  by (auto simp add: process_channel_def get_streams_eq channel_succeeds_def outcome_def Let_def
      print_def failed_def split: sum.splits option.splits prod.splits)

lemma process_channel_fail:
  "fail (process_channel w mf bf ch st) =
     fail st + (if channel_succeeds w mf bf ch then 0 else 1)"
  by (auto simp add: process_channel_def get_streams_eq channel_succeeds_def outcome_def Let_def
      print_def failed_def split: sum.splits option.splits prod.splits)

lemma fold_process_channel:
  "requests (fold (process_channel w mf bf) chs st) = requests st @ map request_of chs
   \<and> out (fold (process_channel w mf bf) chs st) = out st @ concat (map (lines_of w mf bf) chs)
   \<and> success (fold (process_channel w mf bf) chs st) =
       success st + length (filter (channel_succeeds w mf bf) chs)
   \<and> fail (fold (process_channel w mf bf) chs st) =
       fail st + length (filter (\<lambda>ch. \<not> channel_succeeds w mf bf ch) chs)"
proof (induction chs arbitrary: st)
  case Nil
  show ?case by simp
next
  case (Cons ch chs)
  show ?case
    using Cons.IH [of "process_channel w mf bf ch st"]
    by (simp add: process_channel_requests process_channel_out process_channel_success
        process_channel_fail)
qed

lemma main_loop:
  assumes "load_config w = Inr cfg"
    and "makedirs w (best_folder_of cfg) = None"
    and "makedirs w (master_folder_of cfg) = None"
  shows "main w fs =
     (let st = fold (process_channel w (master_folder_of cfg) (best_folder_of cfg)) (channels cfg)
                 \<lparr>success = 0, fail = 0, out = [Starting], files = fs, requests = []\<rparr>
      in (if success st = 0 then 1 else 0,
          st\<lparr>out := out st @ [Summary (success st) (fail st) (length (channels cfg))]\<rparr>))"
  using assms by (simp add: main_def best_folder_of_def master_folder_of_def Let_def print_def)

lemma main_no_loop:
  "(\<exists>e. load_config w = Inl e)
   \<or> (\<exists>cfg e. load_config w = Inr cfg \<and> (makedirs w (best_folder_of cfg) = Some e
                \<or> makedirs w (master_folder_of cfg) = Some e))
   \<Longrightarrow> fst (main w fs) = 1 \<and> Success \<notin> set (out (snd (main w fs)))
       \<and> requests (snd (main w fs)) = []"
  by (auto simp add: main_def best_folder_of_def master_folder_of_def Let_def print_def
      split: sum.splits option.splits)

lemma Success_in_lines:
  "Success \<in> set (concat (map (lines_of w mf bf) chs)) \<longleftrightarrow> (\<exists>ch \<in> set chs. channel_succeeds w mf bf ch)"
  by (induction chs) (auto simp add: lines_of_def channel_succeeds_def)

lemma main_loop_facts:
  assumes "load_config w = Inr cfg"
    and "makedirs w (best_folder_of cfg) = None"
    and "makedirs w (master_folder_of cfg) = None"
  shows "out (snd (main w fs)) =
           [Starting] @ concat (map (lines_of w (master_folder_of cfg) (best_folder_of cfg)) (channels cfg))
             @ [Summary (success (snd (main w fs))) (fail (snd (main w fs))) (length (channels cfg))]"
    and "success (snd (main w fs)) =
           length (filter (channel_succeeds w (master_folder_of cfg) (best_folder_of cfg)) (channels cfg))"
    and "fail (snd (main w fs)) =
           length (filter (\<lambda>ch. \<not> channel_succeeds w (master_folder_of cfg) (best_folder_of cfg) ch)
                     (channels cfg))"
    and "requests (snd (main w fs)) = map request_of (channels cfg)"
    and "fst (main w fs) = 0 \<longleftrightarrow>
           (\<exists>ch \<in> set (channels cfg). channel_succeeds w (master_folder_of cfg) (best_folder_of cfg) ch)"
proof -
  let ?init = "\<lparr>success = 0, fail = 0, out = [Starting], files = fs, requests = []\<rparr>"
  let ?st = "fold (process_channel w (master_folder_of cfg) (best_folder_of cfg)) (channels cfg) ?init"
  let ?ok = "channel_succeeds w (master_folder_of cfg) (best_folder_of cfg)"
  have m: "main w fs =
      (if success ?st = 0 then 1 else 0,
       ?st\<lparr>out := out ?st @ [Summary (success ?st) (fail ?st) (length (channels cfg))]\<rparr>)"
    using main_loop [OF assms, of fs] by (simp add: Let_def)
  from fold_process_channel [of w "master_folder_of cfg" "best_folder_of cfg" "channels cfg" ?init]
  have r: "requests ?st = map request_of (channels cfg)"
    and ou: "out ?st = [Starting]
               @ concat (map (lines_of w (master_folder_of cfg) (best_folder_of cfg)) (channels cfg))"
    and su: "success ?st = length (filter ?ok (channels cfg))"
    and fa: "fail ?st = length (filter (\<lambda>ch. \<not> ?ok ch) (channels cfg))"
    by simp_all
  show "out (snd (main w fs)) =
           [Starting] @ concat (map (lines_of w (master_folder_of cfg) (best_folder_of cfg)) (channels cfg))
             @ [Summary (success (snd (main w fs))) (fail (snd (main w fs))) (length (channels cfg))]"
    by (simp add: m ou)
  show "success (snd (main w fs)) = length (filter ?ok (channels cfg))"
    by (simp add: m su)
  show "fail (snd (main w fs)) = length (filter (\<lambda>ch. \<not> ?ok ch) (channels cfg))"
    by (simp add: m fa)
  show "requests (snd (main w fs)) = map request_of (channels cfg)"
    by (simp add: m r)
  have "success ?st = 0 \<longleftrightarrow> \<not> (\<exists>ch \<in> set (channels cfg). ?ok ch)"
    by (simp add: su filter_empty_conv)
  then show "fst (main w fs) = 0 \<longleftrightarrow> (\<exists>ch \<in> set (channels cfg). ?ok ch)"
    by (simp add: m)
qed

text \<open>
  C9. For every world and channel list: the exit status is 0 if and only if a channel
  succeeded in the run (a \<^verbatim>\<open>Success\<close> line was printed); it is 1 when the configuration
  fails to load. When the configuration loads and the output folders can be created, the
  run processes every channel in order, whatever the outcome of the channels before it
  (the output is the start line, three lines per channel, and the summary); the summary
  reports the number of channels that succeeded, the number that failed and the total, and
  success + fail = total; and the exit status is 0 if and only if at least one channel of the
  list succeeds, so 1 when every channel fails.
\<close>

theorem batch_run_counts_and_exit_status:
  "(fst (main w fs) = 0 \<longleftrightarrow> Success \<in> set (out (snd (main w fs))))
   \<and> (\<forall>e. load_config w = Inl e \<longrightarrow> fst (main w fs) = 1)
   \<and> (\<forall>cfg. load_config w = Inr cfg \<and> makedirs w (best_folder_of cfg) = None
             \<and> makedirs w (master_folder_of cfg) = None \<longrightarrow>
          out (snd (main w fs)) =
            [Starting]
            @ concat (map (lines_of w (master_folder_of cfg) (best_folder_of cfg)) (channels cfg))
            @ [Summary (success (snd (main w fs))) (fail (snd (main w fs))) (length (channels cfg))]
          \<and> success (snd (main w fs)) =
              length (filter (channel_succeeds w (master_folder_of cfg) (best_folder_of cfg))
                        (channels cfg))
          \<and> fail (snd (main w fs)) =
              length (filter (\<lambda>ch. \<not> channel_succeeds w (master_folder_of cfg) (best_folder_of cfg) ch)
                        (channels cfg))
          \<and> success (snd (main w fs)) + fail (snd (main w fs)) = length (channels cfg)
          \<and> (fst (main w fs) = 0 \<longleftrightarrow>
               (\<exists>ch \<in> set (channels cfg).
                  channel_succeeds w (master_folder_of cfg) (best_folder_of cfg) ch)))"
proof (intro conjI allI impI)
  show "fst (main w fs) = 0 \<longleftrightarrow> Success \<in> set (out (snd (main w fs)))"
  proof (cases "\<exists>cfg. load_config w = Inr cfg \<and> makedirs w (best_folder_of cfg) = None
             \<and> makedirs w (master_folder_of cfg) = None")
    case True
    then obtain cfg where c: "load_config w = Inr cfg" "makedirs w (best_folder_of cfg) = None"
      "makedirs w (master_folder_of cfg) = None" by blast
    show ?thesis
      using main_loop_facts(5) [OF c, of fs] Success_in_lines
      by (simp add: main_loop_facts(1) [OF c])
  next
    case False
    then have "(\<exists>e. load_config w = Inl e)
       \<or> (\<exists>cfg e. load_config w = Inr cfg \<and> (makedirs w (best_folder_of cfg) = Some e
                \<or> makedirs w (master_folder_of cfg) = Some e))"
      by (cases "load_config w") auto
    from main_no_loop [OF this, of fs] show ?thesis by simp
  qed
next
  fix e assume "load_config w = Inl e"
  then show "fst (main w fs) = 1" by (simp add: main_def Let_def)
next
  fix cfg
  assume a: "load_config w = Inr cfg \<and> makedirs w (best_folder_of cfg) = None
             \<and> makedirs w (master_folder_of cfg) = None"
  then have c: "load_config w = Inr cfg" "makedirs w (best_folder_of cfg) = None"
    "makedirs w (master_folder_of cfg) = None" by simp_all
  show "out (snd (main w fs)) =
            [Starting]
            @ concat (map (lines_of w (master_folder_of cfg) (best_folder_of cfg)) (channels cfg))
            @ [Summary (success (snd (main w fs))) (fail (snd (main w fs))) (length (channels cfg))]"
    by (rule main_loop_facts(1) [OF c])
  show "success (snd (main w fs)) =
              length (filter (channel_succeeds w (master_folder_of cfg) (best_folder_of cfg))
                        (channels cfg))"
    by (rule main_loop_facts(2) [OF c])
  show "fail (snd (main w fs)) =
              length (filter (\<lambda>ch. \<not> channel_succeeds w (master_folder_of cfg) (best_folder_of cfg) ch)
                        (channels cfg))"
    by (rule main_loop_facts(3) [OF c])
  show "success (snd (main w fs)) + fail (snd (main w fs)) = length (channels cfg)"
    using sum_length_filter_compl [of "channel_succeeds w (master_folder_of cfg) (best_folder_of cfg)"
        "channels cfg"]
    by (simp add: main_loop_facts(2,3) [OF c])
  show "fst (main w fs) = 0 \<longleftrightarrow>
               (\<exists>ch \<in> set (channels cfg).
                  channel_succeeds w (master_folder_of cfg) (best_folder_of cfg) ch)"
    by (rule main_loop_facts(5) [OF c])
qed

section \<open>HTTP headers per channel\<close>

lemma dict_update_lookup:
  "distinct (map fst h) \<Longrightarrow>
     map_of (dict_update d h) k = (case map_of h k of Some v \<Rightarrow> Some v | None \<Rightarrow> map_of d k)"
proof (induction h arbitrary: d)
  case Nil
  show ?case by (simp add: dict_update_def)
next
  case (Cons kv h)
  obtain a b where kv: "kv = (a, b)" by (cases kv)
  from Cons.prems kv have d: "distinct (map fst h)" and a: "a \<notin> fst ` set h" by simp_all
  from a have n: "map_of h a = None" by (simp add: map_of_eq_None_iff)
  have "dict_update d (kv # h) = dict_update (AList.update a b d) h"
    by (simp add: dict_update_def kv)
  then show ?case
    using Cons.IH [OF d, of "AList.update a b d"] n
    by (simp add: kv update_conv' split: option.splits)
qed

lemma make_streamlink_session_eq:
  "make_streamlink_session hdrs =
     \<lparr>options = [(''http-headers'',
         dict_update [(''User-Agent'', ''Mozilla/5.0'')] (case hdrs of None \<Rightarrow> [] | Some h \<Rightarrow> h))]\<rparr>"
  by (cases hdrs)
     (auto simp add: make_streamlink_session_def Streamlink_def set_option_def truthy_list_def
        dict_update_def Let_def)

text \<open>
  C10. Every stream fetch hands the library a session that was constructed for this fetch,
  whose \<^verbatim>\<open>http-headers\<close> option is exactly the default \<^verbatim>\<open>{"User-Agent": "Mozilla/5.0"}\<close>
  updated with the headers given (key by key: a key of the given headers has the given
  value, every other key its default). Without headers (absent, \<^verbatim>\<open>None\<close> or empty) the
  option is the default alone. In a batch run the requests handed to the library are, in
  order, one per channel, each built from that channel's URL and headers only; so in two
  runs whose lists agree on the URL and headers of the channel at a position, the request
  at that position is the same, whatever the headers of the other channels are.
\<close>

theorem channel_headers_do_not_leak:
  "get_streams lib u hdrs log =
     (lib (make_streamlink_session hdrs) u, log @ [(make_streamlink_session hdrs, u)])
   \<and> make_streamlink_session hdrs =
       \<lparr>options = [(''http-headers'',
           dict_update [(''User-Agent'', ''Mozilla/5.0'')] (case hdrs of None \<Rightarrow> [] | Some h \<Rightarrow> h))]\<rparr>
   \<and> (distinct (map fst h) \<longrightarrow>
        map_of (dict_update [(''User-Agent'', ''Mozilla/5.0'')] h) k =
          (case map_of h k of
             Some v \<Rightarrow> Some v
           | None \<Rightarrow> map_of [(''User-Agent'', ''Mozilla/5.0'')] k))
   \<and> (hdrs = None \<or> hdrs = Some [] \<longrightarrow>
        make_streamlink_session hdrs =
          \<lparr>options = [(''http-headers'', [(''User-Agent'', ''Mozilla/5.0'')])]\<rparr>)
   \<and> (\<forall>cfg. load_config w = Inr cfg \<and> makedirs w (best_folder_of cfg) = None
             \<and> makedirs w (master_folder_of cfg) = None \<longrightarrow>
          requests (snd (main w fs)) = map request_of (channels cfg))
   \<and> (\<forall>cfg cfg' i.
          load_config w = Inr cfg \<and> makedirs w (best_folder_of cfg) = None
          \<and> makedirs w (master_folder_of cfg) = None
          \<and> load_config w' = Inr cfg' \<and> makedirs w' (best_folder_of cfg') = None
          \<and> makedirs w' (master_folder_of cfg') = None
          \<and> i < length (channels cfg) \<and> i < length (channels cfg')
          \<and> url (channels cfg ! i) = url (channels cfg' ! i)
          \<and> headers (channels cfg ! i) = headers (channels cfg' ! i) \<longrightarrow>
          requests (snd (main w fs)) ! i = requests (snd (main w' fs')) ! i)"
proof (intro conjI allI impI)
  show "get_streams lib u hdrs log =
     (lib (make_streamlink_session hdrs) u, log @ [(make_streamlink_session hdrs, u)])"
    by (rule get_streams_eq)
  show "make_streamlink_session hdrs =
       \<lparr>options = [(''http-headers'',
           dict_update [(''User-Agent'', ''Mozilla/5.0'')] (case hdrs of None \<Rightarrow> [] | Some h \<Rightarrow> h))]\<rparr>"
    by (rule make_streamlink_session_eq)
  show "map_of (dict_update [(''User-Agent'', ''Mozilla/5.0'')] h) k =
          (case map_of h k of
             Some v \<Rightarrow> Some v
           | None \<Rightarrow> map_of [(''User-Agent'', ''Mozilla/5.0'')] k)" if "distinct (map fst h)"
    using that by (rule dict_update_lookup)
  show "make_streamlink_session hdrs =
          \<lparr>options = [(''http-headers'', [(''User-Agent'', ''Mozilla/5.0'')])]\<rparr>"
    if "hdrs = None \<or> hdrs = Some []"
    using that by (auto simp add: make_streamlink_session_eq dict_update_def)
next
  fix cfg
  assume "load_config w = Inr cfg \<and> makedirs w (best_folder_of cfg) = None
             \<and> makedirs w (master_folder_of cfg) = None"
  then show "requests (snd (main w fs)) = map request_of (channels cfg)"
    using main_loop_facts(4) by blast
next
  fix cfg cfg' i
  assume a: "load_config w = Inr cfg \<and> makedirs w (best_folder_of cfg) = None
          \<and> makedirs w (master_folder_of cfg) = None
          \<and> load_config w' = Inr cfg' \<and> makedirs w' (best_folder_of cfg') = None
          \<and> makedirs w' (master_folder_of cfg') = None
          \<and> i < length (channels cfg) \<and> i < length (channels cfg')
          \<and> url (channels cfg ! i) = url (channels cfg' ! i)
          \<and> headers (channels cfg ! i) = headers (channels cfg' ! i)"
  then have r: "requests (snd (main w fs)) = map request_of (channels cfg)"
    and r': "requests (snd (main w' fs')) = map request_of (channels cfg')"
    using main_loop_facts(4) by blast+
  from a show "requests (snd (main w fs)) ! i = requests (snd (main w' fs')) ! i"
    by (simp add: r r' request_of_def)
qed


section \<open>The example run\<close>

lemma streams_ok_master: "streams_ok \<noteq> [] \<and> truthy_str (fst (build_playlists streams_ok))"
  using block_g_nonempty [of v1080]
  by (simp add: streams_ok_def build_playlists_def best_of_def build_playlists_loop_rendered
      build_playlists_loop_not_rendered example_rendered example_heights truthy_str_def
      add_headers_def
      del: build_playlists_loop.simps(2))

lemma example_outcomes:
  "channel_succeeds env_example mf bf channel_one
   \<and> \<not> channel_succeeds env_example mf bf channel_two
   \<and> \<not> channel_succeeds env_example mf bf channel_three"
  using streams_ok_master
  by (simp add: channel_succeeds_def outcome_def env_example_def library_example_def
      channel_one_def channel_two_def channel_three_def)

text \<open>The theorem of C9 at the example run (one channel succeeds, two fail: the summary
  reports 1, 2 and 3 and the exit status is 0) and at the world without a configuration
  file (exit status 1).\<close>

theorem batch_run_counts_and_exit_status_witness:
  "load_config env_example = Inr config_example
   \<and> channels config_example = [channel_one, channel_two, channel_three]
   \<and> makedirs env_example (best_folder_of config_example) = None
   \<and> makedirs env_example (master_folder_of config_example) = None
   \<and> fst (main env_example []) = 0
   \<and> success (snd (main env_example [])) = 1
   \<and> fail (snd (main env_example [])) = 2
   \<and> last (out (snd (main env_example []))) = Summary 1 2 3
   \<and> load_config env_no_config = Inl (Exception ''no such file'')
   \<and> fst (main env_no_config []) = 1"
proof -
  let ?mf = "master_folder_of config_example" and ?bf = "best_folder_of config_example"
  have c: "load_config env_example = Inr config_example
           \<and> makedirs env_example ?bf = None \<and> makedirs env_example ?mf = None"
    by (simp add: env_example_def)
  have chs: "channels config_example = [channel_one, channel_two, channel_three]"
    by (simp add: config_example_def)
  have n: "load_config env_no_config = Inl (Exception ''no such file'')"
    by (simp add: env_no_config_def)
  from batch_run_counts_and_exit_status [of env_example "[]"] c
  have "out (snd (main env_example [])) =
            [Starting] @ concat (map (lines_of env_example ?mf ?bf) (channels config_example))
            @ [Summary (success (snd (main env_example []))) (fail (snd (main env_example [])))
                 (length (channels config_example))]
        \<and> success (snd (main env_example [])) =
              length (filter (channel_succeeds env_example ?mf ?bf) (channels config_example))
        \<and> fail (snd (main env_example [])) =
              length (filter (\<lambda>ch. \<not> channel_succeeds env_example ?mf ?bf ch) (channels config_example))
        \<and> (fst (main env_example []) = 0 \<longleftrightarrow>
               (\<exists>ch \<in> set (channels config_example). channel_succeeds env_example ?mf ?bf ch))"
    by blast
  then have r: "fst (main env_example []) = 0 \<and> success (snd (main env_example [])) = 1
      \<and> fail (snd (main env_example [])) = 2
      \<and> last (out (snd (main env_example []))) = Summary 1 2 3"
    using example_outcomes [of ?mf ?bf] by (simp add: chs)
  from batch_run_counts_and_exit_status [of env_no_config "[]"] n
  have "fst (main env_no_config []) = 1" by blast
  with r c chs n show ?thesis by simp
qed

text \<open>The theorem of C10 at the example run and at the run with other headers for the first
  and the third channel: the request for the second channel is the same in both, the one
  for the first is not.\<close>

theorem channel_headers_do_not_leak_witness:
  "requests (snd (main env_example [])) =
     [(\<lparr>options = [(''http-headers'', [(''User-Agent'', ''Mozilla/5.0''),
                                         (''Referer'', ''https://tv.example/'')])]\<rparr>,
       ''https://tv.example/one''),
      (\<lparr>options = [(''http-headers'', [(''User-Agent'', ''Mozilla/5.0'')])]\<rparr>,
       ''https://tv.example/two''),
      (\<lparr>options = [(''http-headers'', [(''User-Agent'', ''curl/8'')])]\<rparr>,
       ''https://tv.example/three'')]
   \<and> requests (snd (main env_other_headers [])) ! 1 = requests (snd (main env_example [])) ! 1
   \<and> requests (snd (main env_other_headers [])) ! 0 \<noteq> requests (snd (main env_example [])) ! 0"
proof -
  let ?cfg' = "config_example\<lparr>channels :=
          [channel_one\<lparr>headers := Some [(''Cookie'', ''secret''), (''User-Agent'', ''other'')]\<rparr>,
           channel_two,
           channel_three\<lparr>headers := None\<rparr>]\<rparr>"
  have c: "load_config env_example = Inr config_example
           \<and> makedirs env_example (best_folder_of config_example) = None
           \<and> makedirs env_example (master_folder_of config_example) = None"
    by (simp add: env_example_def)
  have c': "load_config env_other_headers = Inr ?cfg'
           \<and> makedirs env_other_headers (best_folder_of ?cfg') = None
           \<and> makedirs env_other_headers (master_folder_of ?cfg') = None"
    by (simp add: env_other_headers_def)
  have chs: "channels config_example = [channel_one, channel_two, channel_three]"
    by (simp add: config_example_def)
  note t = channel_headers_do_not_leak
    [where w = env_example and fs = "[]" and w' = env_other_headers and fs' = "[]"
       and hdrs = None and h = "[]"]
  from t c have r: "requests (snd (main env_example [])) = map request_of (channels config_example)"
    by blast
  from channel_headers_do_not_leak
    [where w = env_other_headers and fs = "[]" and hdrs = None and h = "[]"] c'
  have r': "requests (snd (main env_other_headers [])) = map request_of (channels ?cfg')"
    by blast
  show ?thesis
    by (simp add: r r' chs request_of_def make_streamlink_session_eq dict_update_def
        channel_one_def channel_two_def channel_three_def)
qed

end
